theory Spec2Isabelle
  imports Complex_Main
begin

section \<open>Strings and the standard-library pieces the script relies on\<close>

text \<open>
  A Python \<open>str\<close> is a sequence of Unicode code points, so it is modelled as a list
  of naturals (slicing such as \<open>[:7]\<close> counts code points, not bytes).  Names of
  environment variables, dictionary keys of the request and attribute names are
  plain ASCII identifiers of the source and stay HOL strings.
\<close>

type_synonym pystr = "nat list"

definition cp :: "char \<Rightarrow> nat" where
  "cp c = of_char c"

definition lit :: "string \<Rightarrow> pystr" where
  "lit s = map cp s"

definition nl :: pystr where
  "nl = [10]"

definition dq :: pystr where
  "dq = [34]"

definition em_dash :: pystr where
  "em_dash = [8212]"

definition right_arrow :: pystr where
  "right_arrow = [8594]"

definition check_mark :: pystr where
  "check_mark = [9989]"

definition cross_mark :: pystr where
  "cross_mark = [10060]"

text \<open>\<open>str.replace(old, new)\<close> for a one-character \<open>old\<close>.\<close>

definition replace_char :: "nat \<Rightarrow> pystr \<Rightarrow> pystr \<Rightarrow> pystr" where
  "replace_char old new s = concat (map (\<lambda>c. if c = old then new else [c]) s)"

text \<open>
  \<open>html.escape(s)\<close> with its default \<open>quote=True\<close>, as the standard library
  writes it: five successive replacements, the ampersand first.
\<close>

definition escape :: "pystr \<Rightarrow> pystr" where
  "escape s =
     replace_char 39 (lit ''&#x27;'')
       (replace_char 34 (lit ''&quot;'')
         (replace_char 62 (lit ''&gt;'')
           (replace_char 60 (lit ''&lt;'')
             (replace_char 38 (lit ''&amp;'') s))))"

text \<open>\<open>'\n'.join(lines)\<close>.\<close>

fun join_nl :: "pystr list \<Rightarrow> pystr" where
  "join_nl [] = []"
| "join_nl [l] = l"
| "join_nl (l # m # ls) = l @ nl @ join_nl (m # ls)"

section \<open>Pull-request status\<close>

definition get_pr_status :: "pystr \<Rightarrow> bool \<Rightarrow> pystr" where
  "get_pr_status action merged =
     (if action = lit ''closed'' \<and> merged then lit ''merged''
      else if action = lit ''synchronize'' then lit ''updated''
      else action)"


section \<open>Formatters without commits\<close>

definition format_pr_message ::
  "pystr \<Rightarrow> pystr \<Rightarrow> pystr \<Rightarrow> pystr \<Rightarrow> pystr \<Rightarrow> pystr \<Rightarrow> pystr \<Rightarrow> pystr \<Rightarrow> pystr" where
  "format_pr_message repo actor pr_num pr_title pr_url base_ref head_ref status =
     (let repo_esc = escape repo;
          actor_esc = escape actor;
          pr_num_esc = escape pr_num;
          pr_title_esc = escape pr_title;
          base_ref_esc = escape base_ref;
          head_ref_esc = escape head_ref;
          status_esc = escape status
      in lit ''<b>PR '' @ status_esc @ lit '':</b> <a href='' @ dq @ pr_url @ dq @ lit ''>#''
           @ pr_num_esc @ lit ''</a> '' @ em_dash @ lit '' '' @ pr_title_esc @ nl
         @ lit ''Repo: '' @ repo_esc @ nl
         @ lit ''By: '' @ actor_esc @ nl
         @ head_ref_esc @ lit '' '' @ right_arrow @ lit '' '' @ base_ref_esc)"

definition format_issue_message ::
  "pystr \<Rightarrow> pystr \<Rightarrow> pystr \<Rightarrow> pystr \<Rightarrow> pystr \<Rightarrow> pystr \<Rightarrow> pystr" where
  "format_issue_message repo actor issue_num issue_title issue_url status =
     (let repo_esc = escape repo;
          actor_esc = escape actor;
          issue_num_esc = escape issue_num;
          issue_title_esc = escape issue_title;
          status_esc = escape status
      in lit ''<b>Issue '' @ status_esc @ lit '':</b> <a href='' @ dq @ issue_url @ dq @ lit ''>#''
           @ issue_num_esc @ lit ''</a> '' @ em_dash @ lit '' '' @ issue_title_esc @ nl
         @ lit ''Repo: '' @ repo_esc @ nl
         @ lit ''By: '' @ actor_esc)"

definition format_workflow_message ::
  "pystr \<Rightarrow> pystr \<Rightarrow> pystr \<Rightarrow> pystr \<Rightarrow> pystr \<Rightarrow> pystr \<Rightarrow> pystr \<Rightarrow> pystr" where
  "format_workflow_message repo actor workflow_name conclusion event_type branch run_url =
     (let repo_esc = escape repo;
          actor_esc = escape actor;
          workflow_name_esc = escape workflow_name;
          conclusion_esc = escape conclusion;
          event_type_esc = escape event_type;
          branch_esc = escape branch
      in lit ''<b>Workflow:</b> '' @ workflow_name_esc @ nl
         @ lit ''Repo: '' @ repo_esc @ nl
         @ lit ''Branch: '' @ branch_esc @ nl
         @ lit ''By: '' @ actor_esc @ nl
         @ lit ''Event: '' @ event_type_esc @ nl
         @ lit ''Status: <b>'' @ conclusion_esc @ lit ''</b>'' @ nl
         @ lit ''<a href='' @ dq @ run_url @ dq @ lit ''>Open run</a>'')"

section \<open>Decoded JSON, exceptions and the interpreter's services\<close>

text \<open>
  What \<open>json.loads\<close> returns: \<open>None\<close>, a bool, an int, a float (the decoder also
  accepts \<open>NaN\<close> and the infinities), a str, a list or a dict.  A dict is an
  association list read with \<open>map_of\<close>.
\<close>

datatype pyfloat = Finite real | PosInf | NegInf | NaN

datatype json =
    JNull
  | JBool bool
  | JInt int
  | JFloat pyfloat
  | JStr pystr
  | JArr "json list"
  | JObj "(pystr \<times> json) list"

text \<open>The exception classes that can reach the script's handlers.\<close>

datatype py_exc =
    JSONDecodeError
  | KeyError
  | TypeError
  | AttributeError
  | ValueError
  | RecursionError
  | UnicodeEncodeError
  | OtherException pystr

datatype form_value = FStr pystr | FInt int

record request =
  req_url :: pystr
  req_data :: pystr
  req_method :: string
  req_headers :: "(string \<times> string) list"

text \<open>
  The library and the network are not part of the repository; they are parameters
  of the model.  \<open>json_loads\<close> is \<open>json.loads\<close> (a decoded value or the exception
  it raised), \<open>py_int\<close> is \<open>int(s)\<close> on a str (\<open>None\<close> for \<open>ValueError\<close>),
  \<open>py_str\<close> is the text an f-string gives a decoded value, \<open>exc_text\<close> is
  \<open>str(e)\<close>, \<open>urlencode\<close> is \<open>urllib.parse.urlencode(data)\<close> (it raises on a str
  that UTF-8 cannot encode), and \<open>urlopen_read\<close> is the body text of the response
  to one \<open>urlopen\<close> call, read and decoded, or the exception any of these raised.
  \<open>stdout_raises\<close> and \<open>stderr_raises\<close> give the exception that \<open>print\<close> raises
  when it writes a line to the stream (\<open>UnicodeEncodeError\<close> when the stream cannot
  encode it, an \<open>OSError\<close>, here an \<open>OtherException\<close>, when the stream is closed),
  \<open>None\<close> when the line is written.
\<close>

record runtime =
  json_loads :: "pystr \<Rightarrow> py_exc + json"
  py_int :: "pystr \<Rightarrow> int option"
  py_str :: "json \<Rightarrow> pystr"
  exc_text :: "py_exc \<Rightarrow> pystr"
  urlencode :: "(string \<times> form_value) list \<Rightarrow> py_exc + pystr"
  urlopen_read :: "request \<Rightarrow> py_exc + pystr"
  stdout_raises :: "pystr \<Rightarrow> py_exc option"
  stderr_raises :: "pystr \<Rightarrow> py_exc option"

definition bind_exc :: "py_exc + 'a \<Rightarrow> ('a \<Rightarrow> py_exc + 'b) \<Rightarrow> py_exc + 'b" where
  "bind_exc m f = (case m of Inl e \<Rightarrow> Inl e | Inr a \<Rightarrow> f a)"

text \<open>Python truth value of a decoded value.\<close>

fun truthy :: "json \<Rightarrow> bool" where
  "truthy JNull = False"
| "truthy (JBool b) = b"
| "truthy (JInt i) = (i \<noteq> 0)"
| "truthy (JFloat f) = (f \<noteq> Finite 0)"
| "truthy (JStr s) = (s \<noteq> [])"
| "truthy (JArr xs) = (xs \<noteq> [])"
| "truthy (JObj kv) = (kv \<noteq> [])"

text \<open>\<open>v.get(key, default)\<close>: only a dict has the method.\<close>

fun py_get :: "json \<Rightarrow> string \<Rightarrow> json \<Rightarrow> py_exc + json" where
  "py_get (JObj kv) key dflt =
     Inr (case map_of kv (lit key) of Some v \<Rightarrow> v | None \<Rightarrow> dflt)"
| "py_get v key dflt = Inl AttributeError"

text \<open>
  \<open>v[:n]\<close>.  A str and a list are sliced.  A dict raises \<open>TypeError\<close> up to
  Python 3.11 and \<open>KeyError\<close> from 3.12 on (the slice is then hashable and looked
  up as a key); the script handles both in the same clause.  Anything else is
  not subscriptable.
\<close>

fun py_slice :: "nat \<Rightarrow> json \<Rightarrow> py_exc + json" where
  "py_slice n (JStr s) = Inr (JStr (take n s))"
| "py_slice n (JArr xs) = Inr (JArr (take n xs))"
| "py_slice n v = Inl TypeError"

text \<open>The items a \<open>for\<close> loop visits: the elements of a list, the characters of a str.\<close>

fun py_iter :: "json \<Rightarrow> py_exc + json list" where
  "py_iter (JArr xs) = Inr xs"
| "py_iter (JStr s) = Inr (map (\<lambda>c. JStr [c]) s)"
| "py_iter (JObj kv) = Inr (map (\<lambda>(k, v). JStr k) kv)"
| "py_iter v = Inl TypeError"

text \<open>How an f-string renders a decoded value: a str as itself.\<close>

definition fmt :: "runtime \<Rightarrow> json \<Rightarrow> pystr" where
  "fmt rt v = (case v of JStr s \<Rightarrow> s | _ \<Rightarrow> py_str rt v)"

text \<open>\<open>v.replace('\n', ' ')\<close> and \<open>escape(v)\<close> need a str: both call \<open>str.replace\<close>.\<close>

definition py_replace_nl :: "json \<Rightarrow> py_exc + pystr" where
  "py_replace_nl v =
     (case v of JStr s \<Rightarrow> Inr (replace_char 10 (lit '' '') s) | _ \<Rightarrow> Inl AttributeError)"

definition py_escape :: "json \<Rightarrow> py_exc + pystr" where
  "py_escape v = (case v of JStr s \<Rightarrow> Inr (escape s) | _ \<Rightarrow> Inl AttributeError)"

section \<open>Push formatter\<close>

text \<open>
  Line 88: \<open>commit.get('author', {}).get('username') or
  commit.get('author', {}).get('name') or 'unknown'\<close>.
\<close>

definition resolve_author :: "json \<Rightarrow> py_exc + json" where
  "resolve_author commit =
     bind_exc (py_get commit ''author'' (JObj [])) (\<lambda>a1.
     bind_exc (py_get a1 ''username'' JNull) (\<lambda>username.
     if truthy username then Inr username
     else bind_exc (py_get commit ''author'' (JObj [])) (\<lambda>a2.
          bind_exc (py_get a2 ''name'' JNull) (\<lambda>name.
          Inr (if truthy name then name else JStr (lit ''unknown''))))))"

text \<open>The body of the loop over the commits, one rendered line per commit.\<close>

definition commit_line :: "runtime \<Rightarrow> pystr \<Rightarrow> json \<Rightarrow> py_exc + pystr" where
  "commit_line rt repo commit =
     bind_exc (py_get commit ''id'' (JStr [])) (\<lambda>cid.
     bind_exc (py_slice 7 cid) (\<lambda>sha7.
     bind_exc (py_get commit ''id'' (JStr [])) (\<lambda>full_sha.
     bind_exc (py_get commit ''message'' (JStr [])) (\<lambda>m.
     bind_exc (py_replace_nl m) (\<lambda>message.
     bind_exc (resolve_author commit) (\<lambda>author.
     let msg_esc = escape message in
     bind_exc (py_escape author) (\<lambda>author_esc.
     let url = lit ''https://github.com/'' @ repo @ lit ''/commit/'' @ fmt rt full_sha in
     Inr (lit ''- <a href='' @ dq @ url @ dq @ lit ''>'' @ fmt rt sha7 @ lit ''</a> ''
            @ em_dash @ lit '' '' @ msg_esc @ lit '' (by '' @ author_esc @ lit '')''))))))))"

fun push_lines :: "runtime \<Rightarrow> pystr \<Rightarrow> json list \<Rightarrow> py_exc + pystr list" where
  "push_lines rt repo [] = Inr []"
| "push_lines rt repo (commit # rest) =
     bind_exc (commit_line rt repo commit) (\<lambda>line.
     bind_exc (push_lines rt repo rest) (\<lambda>lines. Inr (line # lines)))"

text \<open>The clause \<open>except (json.JSONDecodeError, KeyError, TypeError)\<close>.\<close>

definition push_handles :: "py_exc \<Rightarrow> bool" where
  "push_handles e = (e = JSONDecodeError \<or> e = KeyError \<or> e = TypeError)"

definition error_sentinel :: pystr where
  "error_sentinel = em_dash @ lit '' error parsing commits '' @ em_dash"

definition empty_sentinel :: pystr where
  "empty_sentinel = em_dash @ lit '' no commit messages '' @ em_dash"

definition push_header :: "pystr \<Rightarrow> pystr \<Rightarrow> pystr \<Rightarrow> pystr" where
  "push_header repo actor branch =
     escape actor @ lit '' just pushed to branch '' @ escape branch @ lit '' of ''
       @ escape repo @ lit '':''"

text \<open>
  The \<open>try\<close> block: decode, slice, loop.  An exception leaves the loop at once.
\<close>

definition parse_commits :: "runtime \<Rightarrow> pystr \<Rightarrow> pystr \<Rightarrow> py_exc + pystr list" where
  "parse_commits rt repo commits_data =
     bind_exc (json_loads rt commits_data) (\<lambda>commits.
     bind_exc (py_slice 10 commits) (\<lambda>first.
     bind_exc (py_iter first) (\<lambda>items.
     push_lines rt repo items)))"

definition format_push_message ::
  "runtime \<Rightarrow> pystr \<Rightarrow> pystr \<Rightarrow> pystr \<Rightarrow> pystr option \<Rightarrow> py_exc + pystr" where
  "format_push_message rt repo actor branch commits_data =
     bind_exc
       (case commits_data of
          None \<Rightarrow> Inr []
        | Some d \<Rightarrow>
            if d = [] then Inr []
            else (case parse_commits rt repo d of
                    Inl e \<Rightarrow> if push_handles e then Inr [error_sentinel] else Inl e
                  | Inr lines \<Rightarrow> Inr lines))
       (\<lambda>parsed.
     let commits_list = (if parsed = [] then [empty_sentinel] else parsed);
         commits_text = join_nl commits_list
     in Inr (push_header repo actor branch @ nl @ commits_text))"

section \<open>Effects: output, exit, exceptions, the network\<close>

text \<open>
  A run of effectful code is its result together with the events it produced, in
  order.  \<open>SysExit n\<close> is \<open>sys.exit(n)\<close>, \<open>Raised e\<close> an exception no handler
  caught; both end the run, so \<open>bind\<close> skips what follows them.
\<close>

datatype event = Stdout pystr | Stderr pystr | HttpPost request

datatype 'a result = Return 'a | SysExit nat | Raised py_exc

type_synonym 'a prog = "'a result \<times> event list"

definition ret :: "'a \<Rightarrow> 'a prog" where
  "ret a = (Return a, [])"

definition bind :: "'a prog \<Rightarrow> ('a \<Rightarrow> 'b prog) \<Rightarrow> 'b prog" where
  "bind m f =
     (case m of
        (Return a, t) \<Rightarrow> (case f a of (r, t') \<Rightarrow> (r, t @ t'))
      | (SysExit n, t) \<Rightarrow> (SysExit n, t)
      | (Raised e, t) \<Rightarrow> (Raised e, t))"

definition print_err :: "pystr \<Rightarrow> unit prog" where
  "print_err s = (Return (), [Stderr s])"

definition sys_exit :: "nat \<Rightarrow> 'a prog" where
  "sys_exit n = (SysExit n, [])"

text \<open>
  \<open>try: m except Exception as e: h e\<close>.  Every exception of the model is an
  \<open>Exception\<close>; \<open>SystemExit\<close> is not and passes through.
\<close>

definition try_except :: "'a prog \<Rightarrow> (py_exc \<Rightarrow> 'a prog) \<Rightarrow> 'a prog" where
  "try_except m h =
     (case m of
        (Return a, t) \<Rightarrow> (Return a, t)
      | (SysExit n, t) \<Rightarrow> (SysExit n, t)
      | (Raised e, t) \<Rightarrow> (case h e of (r, t') \<Rightarrow> (r, t @ t')))"

definition lift_exc :: "py_exc + 'a \<Rightarrow> 'a prog" where
  "lift_exc m = (case m of Inl e \<Rightarrow> (Raised e, []) | Inr a \<Rightarrow> (Return a, []))"

text \<open>
  The status the process ends with: 0 when \<open>main\<close> returns, the argument of
  \<open>sys.exit\<close>, and 1 when the interpreter dies of an uncaught exception.
\<close>

fun exit_code :: "'a result \<Rightarrow> nat" where
  "exit_code (Return a) = 0"
| "exit_code (SysExit n) = n"
| "exit_code (Raised e) = 1"

fun is_http :: "event \<Rightarrow> bool" where
  "is_http (HttpPost r) = True"
| "is_http e = False"

definition http_calls :: "event list \<Rightarrow> nat" where
  "http_calls t = length (filter is_http t)"

section \<open>Environment reader\<close>

type_synonym env = "string \<Rightarrow> pystr option"

text \<open>\<open>not value\<close> is true of \<open>None\<close> and of the empty str.\<close>

fun opt_truthy :: "pystr option \<Rightarrow> bool" where
  "opt_truthy None = False"
| "opt_truthy (Some s) = (s \<noteq> [])"

definition missing_diag :: "string \<Rightarrow> pystr" where
  "missing_diag name =
     lit ''Error: Required environment variable '' @ lit name @ lit '' is not set''"

definition get_env_var :: "env \<Rightarrow> string \<Rightarrow> bool \<Rightarrow> pystr option prog" where
  "get_env_var env name required =
     (let val = env name in
      if required \<and> \<not> opt_truthy val
      then bind (print_err (missing_diag name)) (\<lambda>_. sys_exit 1)
      else ret val)"

text \<open>
  A call with \<open>required=True\<close> whose value is used as a str.  Such a call returns
  only a non-empty str, so the \<open>None\<close> branch is never taken; it stands for what
  Python would do with \<open>None\<close> at the first string operation.
\<close>

definition get_required :: "env \<Rightarrow> string \<Rightarrow> pystr prog" where
  "get_required env name =
     bind (get_env_var env name True) (\<lambda>val.
       case val of Some s \<Rightarrow> ret s | None \<Rightarrow> (Raised AttributeError, []))"

text \<open>\<open>get_env_var(name, required=False) or dflt\<close>.\<close>

definition get_or :: "env \<Rightarrow> string \<Rightarrow> pystr \<Rightarrow> pystr prog" where
  "get_or env name dflt =
     bind (get_env_var env name False) (\<lambda>val.
       case val of Some s \<Rightarrow> ret (if s \<noteq> [] then s else dflt) | None \<Rightarrow> ret dflt)"

section \<open>Notifier\<close>

definition sent_ok_line :: pystr where
  "sent_ok_line = check_mark @ lit '' Telegram message sent successfully''"

definition api_error_line :: "pystr \<Rightarrow> pystr" where
  "api_error_line d = cross_mark @ lit '' Telegram API error: '' @ d"

definition send_failed_line :: "pystr \<Rightarrow> pystr" where
  "send_failed_line d = cross_mark @ lit '' Failed to send Telegram message: '' @ d"

text \<open>The request dictionary, in insertion order.\<close>

definition request_data ::
  "runtime \<Rightarrow> pystr \<Rightarrow> pystr \<Rightarrow> pystr option \<Rightarrow> (string \<times> form_value) list" where
  "request_data rt chat_id message thread_id =
     (let data = [(''chat_id'', FStr chat_id), (''text'', FStr message),
                  (''parse_mode'', FStr (lit ''HTML''))]
      in case thread_id of
           None \<Rightarrow> data
         | Some t \<Rightarrow>
             if t = [] then data
             else (case py_int rt t of
                     Some n \<Rightarrow> data @ [(''message_thread_id'', FInt n)]
                   | None \<Rightarrow> data @ [(''message_thread_id'', FStr t)]))"

text \<open>
  What the \<open>try\<close> block computes once \<open>urlopen\<close> has been called: \<open>Inr None\<close>
  when \<open>result.get('ok')\<close> is truthy, \<open>Inr (Some d)\<close> with the description
  otherwise, \<open>Inl e\<close> for an exception raised on the way.
\<close>

definition read_reply :: "runtime \<Rightarrow> request \<Rightarrow> py_exc + json option" where
  "read_reply rt req =
     bind_exc (urlopen_read rt req) (\<lambda>body.
     bind_exc (json_loads rt body) (\<lambda>result.
     bind_exc (py_get result ''ok'' JNull) (\<lambda>ok.
     if truthy ok then Inr None
     else bind_exc (py_get result ''description'' (JStr (lit ''Unknown error''))) (\<lambda>d.
          Inr (Some d)))))"

definition api_url :: "pystr \<Rightarrow> pystr" where
  "api_url bot_token = lit ''https://api.telegram.org/bot'' @ bot_token @ lit ''/sendMessage''"

text \<open>\<open>Request(url, data=data_encoded, method='POST')\<close> with its content type.\<close>

definition post_request :: "pystr \<Rightarrow> pystr \<Rightarrow> request" where
  "post_request url data_encoded =
     \<lparr>req_url = url, req_data = data_encoded, req_method = ''POST'',
      req_headers = [(''Content-Type'', ''application/x-www-form-urlencoded'')]\<rparr>"

text \<open>The one call of \<open>urlopen\<close>: it is recorded before its outcome is looked at.\<close>

definition urlopen :: "request \<Rightarrow> unit prog" where
  "urlopen req = (Return (), [HttpPost req])"

text \<open>
  The notifier prints inside its \<open>try\<close> block and inside its handler, where a
  \<open>print\<close> that raises changes what the function returns; there \<open>print\<close> is a
  call that may raise, and a line it fails to write is not recorded.
\<close>

definition try_print_out :: "runtime \<Rightarrow> pystr \<Rightarrow> unit prog" where
  "try_print_out rt s =
     (case stdout_raises rt s of None \<Rightarrow> (Return (), [Stdout s]) | Some e \<Rightarrow> (Raised e, []))"

definition try_print_err :: "runtime \<Rightarrow> pystr \<Rightarrow> unit prog" where
  "try_print_err rt s =
     (case stderr_raises rt s of None \<Rightarrow> (Return (), [Stderr s]) | Some e \<Rightarrow> (Raised e, []))"

text \<open>The handler \<open>except Exception as e\<close> of lines 166 to 168.\<close>

definition send_failed :: "runtime \<Rightarrow> py_exc \<Rightarrow> bool prog" where
  "send_failed rt e =
     bind (try_print_err rt (send_failed_line (exc_text rt e))) (\<lambda>_. ret False)"

definition send_telegram_message ::
  "runtime \<Rightarrow> pystr \<Rightarrow> pystr \<Rightarrow> pystr \<Rightarrow> pystr option \<Rightarrow> bool prog" where
  "send_telegram_message rt bot_token chat_id message thread_id =
     (let url = api_url bot_token;
          data = request_data rt chat_id message thread_id
      in bind (lift_exc (urlencode rt data)) (\<lambda>data_encoded.
         let req = post_request url data_encoded
         in try_except
              (bind (urlopen req) (\<lambda>_.
               bind (lift_exc (read_reply rt req)) (\<lambda>reply.
               case reply of
                 None \<Rightarrow> bind (try_print_out rt sent_ok_line) (\<lambda>_. ret True)
               | Some d \<Rightarrow>
                   bind (try_print_err rt (api_error_line (fmt rt d))) (\<lambda>_. ret False))))
              (send_failed rt)))"

section \<open>Entry point\<close>

text \<open>The four branch bodies of \<open>main\<close>, each reading its variables in source order.\<close>

definition pr_branch :: "env \<Rightarrow> pystr \<Rightarrow> pystr \<Rightarrow> pystr prog" where
  "pr_branch env repo actor =
     bind (get_required env ''PR_NUMBER'') (\<lambda>pr_num.
     bind (get_required env ''PR_TITLE'') (\<lambda>pr_title.
     bind (get_required env ''PR_URL'') (\<lambda>pr_url.
     bind (get_required env ''BASE_REF'') (\<lambda>base_ref.
     bind (get_required env ''HEAD_REF'') (\<lambda>head_ref.
     bind (get_required env ''PR_ACTION'') (\<lambda>action.
     bind (get_env_var env ''PR_MERGED'' False) (\<lambda>m.
     let merged = (m = Some (lit ''true''));
         status = get_pr_status action merged
     in ret (format_pr_message repo actor pr_num pr_title pr_url base_ref head_ref
               status))))))))"

definition issue_branch :: "env \<Rightarrow> pystr \<Rightarrow> pystr \<Rightarrow> pystr prog" where
  "issue_branch env repo actor =
     bind (get_required env ''ISSUE_NUMBER'') (\<lambda>issue_num.
     bind (get_required env ''ISSUE_TITLE'') (\<lambda>issue_title.
     bind (get_required env ''ISSUE_URL'') (\<lambda>issue_url.
     bind (get_required env ''ISSUE_ACTION'') (\<lambda>status.
     ret (format_issue_message repo actor issue_num issue_title issue_url status)))))"

definition push_branch :: "runtime \<Rightarrow> env \<Rightarrow> pystr \<Rightarrow> pystr \<Rightarrow> pystr prog" where
  "push_branch rt env repo actor =
     bind (get_required env ''PUSH_BRANCH'') (\<lambda>branch.
     bind (get_env_var env ''PUSH_COMMITS'' False) (\<lambda>commits_data.
     lift_exc (format_push_message rt repo actor branch commits_data)))"

definition workflow_branch :: "env \<Rightarrow> pystr \<Rightarrow> pystr \<Rightarrow> pystr prog" where
  "workflow_branch env repo actor =
     bind (get_required env ''WORKFLOW_NAME'') (\<lambda>workflow_name.
     bind (get_required env ''WORKFLOW_CONCLUSION'') (\<lambda>conclusion.
     bind (get_or env ''WORKFLOW_EVENT'' (lit ''unknown'')) (\<lambda>workflow_event.
     bind (get_or env ''WORKFLOW_BRANCH'' (lit ''unknown'')) (\<lambda>branch.
     bind (get_or env ''WORKFLOW_URL'' (lit ''#'')) (\<lambda>run_url.
     ret (format_workflow_message repo actor workflow_name conclusion workflow_event
            branch run_url))))))"

definition unknown_event_line :: pystr where
  "unknown_event_line =
     cross_mark @ lit '' Unknown event type or missing required environment variables''"

text \<open>\<open>event_type == hint or get_env_var(name, required=False)\<close>, as a condition.\<close>

definition hint_or_present :: "env \<Rightarrow> pystr option \<Rightarrow> string \<Rightarrow> string \<Rightarrow> bool prog" where
  "hint_or_present env event_type hint name =
     (if event_type = Some (lit hint) then ret True
      else bind (get_env_var env name False) (\<lambda>val. ret (opt_truthy val)))"

text \<open>The \<open>if\<close>/\<open>elif\<close> chain of \<open>main\<close> that produces the message.\<close>

definition build_message ::
  "runtime \<Rightarrow> env \<Rightarrow> pystr \<Rightarrow> pystr \<Rightarrow> pystr option \<Rightarrow> pystr prog" where
  "build_message rt env repo actor event_type =
     bind (hint_or_present env event_type ''pull_request'' ''PR_NUMBER'') (\<lambda>is_pr.
     if is_pr then pr_branch env repo actor
     else bind (hint_or_present env event_type ''issues'' ''ISSUE_NUMBER'') (\<lambda>is_issue.
     if is_issue then issue_branch env repo actor
     else bind (hint_or_present env event_type ''push'' ''PUSH_BRANCH'') (\<lambda>is_push.
     if is_push then push_branch rt env repo actor
     else bind (hint_or_present env event_type ''workflow_run'' ''WORKFLOW_NAME'') (\<lambda>is_wf.
     if is_wf then workflow_branch env repo actor
     else bind (print_err unknown_event_line) (\<lambda>_. sys_exit 1)))))"

definition main :: "runtime \<Rightarrow> env \<Rightarrow> unit prog" where
  "main rt env =
     bind (get_required env ''TELEGRAM_BOT_TOKEN'') (\<lambda>bot_token.
     bind (get_required env ''TELEGRAM_CHAT_ID'') (\<lambda>chat_id.
     bind (get_env_var env ''TELEGRAM_THREAD_ID'' False) (\<lambda>thread_id.
     bind (get_required env ''GITHUB_REPOSITORY'') (\<lambda>repo.
     bind (get_required env ''GITHUB_ACTOR'') (\<lambda>actor.
     bind (get_env_var env ''EVENT_TYPE'' False) (\<lambda>event_type.
     bind (build_message rt env repo actor event_type) (\<lambda>message.
     bind (send_telegram_message rt bot_token chat_id message thread_id) (\<lambda>success.
     if \<not> success then sys_exit 1 else ret ()))))))))"

section \<open>Reference definitions the script is compared with\<close>

text \<open>
  The markup of a message as a tree: text spans, whose characters are escaped when
  rendered, verbatim insertions, bold ranges and links with their target.
\<close>

datatype node = Text pystr | Verbatim pystr | Bold "node list" | Link pystr "node list"

definition entity :: "nat \<Rightarrow> pystr" where
  "entity c =
     (if c = cp CHR ''&'' then lit ''&amp;''
      else if c = cp CHR ''<'' then lit ''&lt;''
      else if c = cp CHR ''>'' then lit ''&gt;''
      else if c = 34 then lit ''&quot;''
      else if c = 39 then lit ''&#x27;''
      else [c])"

fun render :: "node \<Rightarrow> pystr" where
  "render (Text t) = concat (map entity t)"
| "render (Verbatim t) = t"
| "render (Bold ns) = lit ''<b>'' @ concat (map render ns) @ lit ''</b>''"
| "render (Link url ns) =
     lit ''<a href='' @ dq @ url @ dq @ lit ''>'' @ concat (map render ns) @ lit ''</a>''"

definition render_all :: "node list \<Rightarrow> pystr" where
  "render_all ns = concat (map render ns)"

text \<open>
  A commit object as the payload documents it: a mapping whose \<open>id\<close> and
  \<open>message\<close>, when present, are strings, and whose \<open>author\<close>, when present, is a
  mapping whose \<open>username\<close> and \<open>name\<close>, when present, are strings.
\<close>

definition field :: "(pystr \<times> json) list \<Rightarrow> string \<Rightarrow> json option" where
  "field kv k = map_of kv (lit k)"

fun opt_str :: "json option \<Rightarrow> bool" where
  "opt_str None = True"
| "opt_str (Some (JStr s)) = True"
| "opt_str (Some v) = False"

fun str_or_empty :: "json option \<Rightarrow> pystr" where
  "str_or_empty (Some (JStr s)) = s"
| "str_or_empty v = []"

fun valid_author :: "json option \<Rightarrow> bool" where
  "valid_author None = True"
| "valid_author (Some (JObj a)) = (opt_str (field a ''username'') \<and> opt_str (field a ''name''))"
| "valid_author (Some v) = False"

fun valid_commit :: "json \<Rightarrow> bool" where
  "valid_commit (JObj kv) =
     (opt_str (field kv ''id'') \<and> opt_str (field kv ''message'')
      \<and> valid_author (field kv ''author''))"
| "valid_commit v = False"

fun commit_id :: "json \<Rightarrow> pystr" where
  "commit_id (JObj kv) = str_or_empty (field kv ''id'')"
| "commit_id v = []"

fun commit_message :: "json \<Rightarrow> pystr" where
  "commit_message (JObj kv) =
     map (\<lambda>c. if c = 10 then 32 else c) (str_or_empty (field kv ''message''))"
| "commit_message v = []"

fun author_fields :: "json option \<Rightarrow> pystr \<times> pystr" where
  "author_fields (Some (JObj a)) =
     (str_or_empty (field a ''username''), str_or_empty (field a ''name''))"
| "author_fields v = ([], [])"

text \<open>The user name, else the name, else \<open>unknown\<close>; an empty string counts as none.\<close>

fun commit_author :: "json \<Rightarrow> pystr" where
  "commit_author (JObj kv) =
     (case author_fields (field kv ''author'') of
        (username, name) \<Rightarrow>
          if username \<noteq> [] then username
          else if name \<noteq> [] then name
          else lit ''unknown'')"
| "commit_author v = lit ''unknown''"

text \<open>The value under \<open>id\<close>, the empty string when there is none.\<close>

fun commit_id_value :: "json \<Rightarrow> json" where
  "commit_id_value (JObj kv) = (case field kv ''id'' of Some v \<Rightarrow> v | None \<Rightarrow> JStr [])"
| "commit_id_value v = JStr []"

definition commit_url :: "pystr \<Rightarrow> json \<Rightarrow> pystr" where
  "commit_url repo c = lit ''https://github.com/'' @ repo @ lit ''/commit/'' @ commit_id c"

text \<open>\<open>- {link} \<emdash> {escaped message} (by {escaped author})\<close>, written out.\<close>

definition line_spec :: "pystr \<Rightarrow> json \<Rightarrow> pystr" where
  "line_spec repo c =
     lit ''- <a href='' @ dq @ commit_url repo c @ dq @ lit ''>'' @ take 7 (commit_id c)
       @ lit ''</a> '' @ em_dash @ lit '' '' @ escape (commit_message c)
       @ lit '' (by '' @ escape (commit_author c) @ lit '')''"

text \<open>The decoded values that can be sliced, and those that have \<open>get\<close>.\<close>

fun sliceable :: "json \<Rightarrow> bool" where
  "sliceable (JStr s) = True"
| "sliceable (JArr xs) = True"
| "sliceable v = False"

fun is_object :: "json \<Rightarrow> bool" where
  "is_object (JObj kv) = True"
| "is_object v = False"

text \<open>The event kinds, the hint and the variable that select each, in precedence order.\<close>

datatype event_kind = PullRequest | Issue | Push | WorkflowRun

fun hint :: "event_kind \<Rightarrow> string" where
  "hint PullRequest = ''pull_request''"
| "hint Issue = ''issues''"
| "hint Push = ''push''"
| "hint WorkflowRun = ''workflow_run''"

fun presence_var :: "event_kind \<Rightarrow> string" where
  "presence_var PullRequest = ''PR_NUMBER''"
| "presence_var Issue = ''ISSUE_NUMBER''"
| "presence_var Push = ''PUSH_BRANCH''"
| "presence_var WorkflowRun = ''WORKFLOW_NAME''"

text \<open>A variable is present when it is set to a non-empty value.\<close>

definition present :: "env \<Rightarrow> string \<Rightarrow> bool" where
  "present env name = (case env name of Some s \<Rightarrow> s \<noteq> [] | None \<Rightarrow> False)"

definition matches :: "env \<Rightarrow> event_kind \<Rightarrow> bool" where
  "matches env k = (env ''EVENT_TYPE'' = Some (lit (hint k)) \<or> present env (presence_var k))"

definition classify :: "env \<Rightarrow> event_kind option" where
  "classify env = find (matches env) [PullRequest, Issue, Push, WorkflowRun]"

text \<open>The branch body of \<open>main\<close> that belongs to each kind.\<close>

fun run_branch :: "runtime \<Rightarrow> env \<Rightarrow> pystr \<Rightarrow> pystr \<Rightarrow> event_kind \<Rightarrow> pystr prog" where
  "run_branch rt env repo actor PullRequest = pr_branch env repo actor"
| "run_branch rt env repo actor Issue = issue_branch env repo actor"
| "run_branch rt env repo actor Push = push_branch rt env repo actor"
| "run_branch rt env repo actor WorkflowRun = workflow_branch env repo actor"

text \<open>The value of a variable as a str, empty when it is unset.\<close>

definition env_value :: "env \<Rightarrow> string \<Rightarrow> pystr" where
  "env_value env name = (case env name of Some s \<Rightarrow> s | None \<Rightarrow> [])"

definition env_value_or :: "env \<Rightarrow> string \<Rightarrow> pystr \<Rightarrow> pystr" where
  "env_value_or env name dflt = (if present env name then env_value env name else dflt)"

text \<open>What each branch computes once its required variables are there.\<close>

fun branch_message :: "runtime \<Rightarrow> env \<Rightarrow> pystr \<Rightarrow> pystr \<Rightarrow> event_kind \<Rightarrow> py_exc + pystr" where
  "branch_message rt env repo actor PullRequest =
     Inr (format_pr_message repo actor (env_value env ''PR_NUMBER'')
            (env_value env ''PR_TITLE'') (env_value env ''PR_URL'')
            (env_value env ''BASE_REF'') (env_value env ''HEAD_REF'')
            (get_pr_status (env_value env ''PR_ACTION'')
               (env ''PR_MERGED'' = Some (lit ''true''))))"
| "branch_message rt env repo actor Issue =
     Inr (format_issue_message repo actor (env_value env ''ISSUE_NUMBER'')
            (env_value env ''ISSUE_TITLE'') (env_value env ''ISSUE_URL'')
            (env_value env ''ISSUE_ACTION''))"
| "branch_message rt env repo actor Push =
     format_push_message rt repo actor (env_value env ''PUSH_BRANCH'') (env ''PUSH_COMMITS'')"
| "branch_message rt env repo actor WorkflowRun =
     Inr (format_workflow_message repo actor (env_value env ''WORKFLOW_NAME'')
            (env_value env ''WORKFLOW_CONCLUSION'')
            (env_value_or env ''WORKFLOW_EVENT'' (lit ''unknown''))
            (env_value_or env ''WORKFLOW_BRANCH'' (lit ''unknown''))
            (env_value_or env ''WORKFLOW_URL'' (lit ''#'')))"

text \<open>The variables every run needs, and those each kind needs.\<close>

definition common_vars :: "string list" where
  "common_vars =
     [''TELEGRAM_BOT_TOKEN'', ''TELEGRAM_CHAT_ID'', ''GITHUB_REPOSITORY'', ''GITHUB_ACTOR'']"

fun required_vars :: "event_kind \<Rightarrow> string list" where
  "required_vars PullRequest =
     [''PR_NUMBER'', ''PR_TITLE'', ''PR_URL'', ''BASE_REF'', ''HEAD_REF'', ''PR_ACTION'']"
| "required_vars Issue = [''ISSUE_NUMBER'', ''ISSUE_TITLE'', ''ISSUE_URL'', ''ISSUE_ACTION'']"
| "required_vars Push = [''PUSH_BRANCH'']"
| "required_vars WorkflowRun = [''WORKFLOW_NAME'', ''WORKFLOW_CONCLUSION'']"

definition missing_config :: "env \<Rightarrow> bool" where
  "missing_config env =
     (list_ex (\<lambda>n. \<not> present env n) common_vars
      \<or> (case classify env of
            Some k \<Rightarrow> list_ex (\<lambda>n. \<not> present env n) (required_vars k)
          | None \<Rightarrow> False))"

text \<open>
  Delivery succeeds when no needed variable is missing, an event kind is selected,
  its message is built and the notifier returns \<open>True\<close> for it.
\<close>

definition delivered :: "runtime \<Rightarrow> env \<Rightarrow> bool" where
  "delivered rt env =
     (\<not> missing_config env
      \<and> (case classify env of
            None \<Rightarrow> False
          | Some k \<Rightarrow>
              (case branch_message rt env (env_value env ''GITHUB_REPOSITORY'')
                      (env_value env ''GITHUB_ACTOR'') k of
                 Inl e \<Rightarrow> False
               | Inr message \<Rightarrow>
                   fst (send_telegram_message rt (env_value env ''TELEGRAM_BOT_TOKEN'')
                          (env_value env ''TELEGRAM_CHAT_ID'') message
                          (env ''TELEGRAM_THREAD_ID'')) = Return True)))"

text \<open>An environment in which every variable set to the empty string is unset.\<close>

definition unset_empty :: "env \<Rightarrow> env" where
  "unset_empty env = (\<lambda>name. if env name = Some [] then None else env name)"

text \<open>
  What the notifier reads in a decoded reply: whether \<open>ok\<close> is there and truthy,
  and the description, \<open>Unknown error\<close> when there is none.
\<close>

definition ok_field :: "(pystr \<times> json) list \<Rightarrow> bool" where
  "ok_field kv = (case field kv ''ok'' of Some v \<Rightarrow> truthy v | None \<Rightarrow> False)"

definition description :: "(pystr \<times> json) list \<Rightarrow> json" where
  "description kv =
     (case field kv ''description'' of Some v \<Rightarrow> v | None \<Rightarrow> JStr (lit ''Unknown error''))"

section \<open>A sample interpreter and sample inputs\<close>

text \<open>
  Concrete values on which the model is run: a decoder that knows a handful of
  payloads, an integer parser that knows two numerals, a server that accepts
  every request, and streams that take every line.
\<close>

definition quoted :: "string \<Rightarrow> pystr" where
  "quoted s = dq @ lit s @ dq"

text \<open>
  \<open>[{"id":"abcdef1234567","message":"fix\nbug","author":{"name":"alice"}}]\<close>, the
  line break written as the two characters backslash and \<open>n\<close>, and its decoding.
\<close>

definition sample_payload :: pystr where
  "sample_payload =
     lit ''[{'' @ quoted ''id'' @ lit '':'' @ quoted ''abcdef1234567'' @ lit '',''
       @ quoted ''message'' @ lit '':'' @ dq @ lit ''fix'' @ [92] @ lit ''nbug'' @ dq @ lit '',''
       @ quoted ''author'' @ lit '':{'' @ quoted ''name'' @ lit '':'' @ quoted ''alice''
       @ lit ''}}]''"

definition sample_commit :: json where
  "sample_commit =
     JObj [(lit ''id'', JStr (lit ''abcdef1234567'')),
           (lit ''message'', JStr (lit ''fix'' @ nl @ lit ''bug'')),
           (lit ''author'', JObj [(lit ''name'', JStr (lit ''alice''))])]"

text \<open>A commit whose message and author contain markup characters.\<close>

definition markup_commit :: json where
  "markup_commit =
     JObj [(lit ''id'', JStr (lit ''abcdef1234567'')),
           (lit ''message'', JStr (lit ''a<b'')),
           (lit ''author'', JObj [(lit ''username'', JStr (lit ''R&D''))])]"

definition ok_reply :: pystr where
  "ok_reply = lit ''{'' @ quoted ''ok'' @ lit '':true}''"

definition sample_loads :: "pystr \<Rightarrow> py_exc + json" where
  "sample_loads s =
     (if s = lit ''[]'' then Inr (JArr [])
      else if s = lit ''[1]'' then Inr (JArr [JInt 1])
      else if s = lit ''{}'' then Inr (JObj [])
      else if s = lit ''7'' then Inr (JInt 7)
      else if s = sample_payload then Inr (JArr [sample_commit])
      else if s = ok_reply then Inr (JObj [(lit ''ok'', JBool True)])
      else Inl JSONDecodeError)"

definition sample_rt :: runtime where
  "sample_rt =
     \<lparr>json_loads = sample_loads,
      py_int = (\<lambda>s. if s = lit ''42'' then Some 42 else if s = lit ''7'' then Some 7 else None),
      py_str = (\<lambda>v. lit ''?''),
      exc_text = (\<lambda>e. lit ''error''),
      urlencode = (\<lambda>d. Inr (lit ''form'')),
      urlopen_read = (\<lambda>r. Inr ok_reply),
      stdout_raises = (\<lambda>s. None),
      stderr_raises = (\<lambda>s. None)\<rparr>"

text \<open>Sample environments: the common variables alone, and an issue event.\<close>

definition base_env :: env where
  "base_env =
     map_of [(''TELEGRAM_BOT_TOKEN'', lit ''T''), (''TELEGRAM_CHAT_ID'', lit ''1''),
             (''GITHUB_REPOSITORY'', lit ''o/r''), (''GITHUB_ACTOR'', lit ''bob'')]"

definition issue_env :: env where
  "issue_env =
     map_of [(''TELEGRAM_BOT_TOKEN'', lit ''T''), (''TELEGRAM_CHAT_ID'', lit ''1''),
             (''GITHUB_REPOSITORY'', lit ''o/r''), (''GITHUB_ACTOR'', lit ''bob''),
             (''ISSUE_NUMBER'', lit ''7''), (''ISSUE_TITLE'', lit ''a<b''),
             (''ISSUE_URL'', lit ''https://x/7''), (''ISSUE_ACTION'', lit ''opened''),
             (''PUSH_BRANCH'', lit ''main'')]"

text \<open>A push event whose payload is the list \<open>[1]\<close>.\<close>

definition push_env :: env where
  "push_env =
     map_of [(''TELEGRAM_BOT_TOKEN'', lit ''T''), (''TELEGRAM_CHAT_ID'', lit ''1''),
             (''GITHUB_REPOSITORY'', lit ''o/r''), (''GITHUB_ACTOR'', lit ''bob''),
             (''PUSH_BRANCH'', lit ''main''), (''PUSH_COMMITS'', lit ''[1]'')]"

section \<open>Results\<close>

subsection \<open>Evaluation rules\<close>

lemma lit_Nil: "lit [] = []"
  by (simp add: lit_def)

lemma lit_Cons: "lit (c # s) = cp c # lit s"
  by (simp add: lit_def)

lemma lit_append: "lit (a @ b) = lit a @ lit b"
  by (simp add: lit_def)

lemma cp_Char: "cp (Char b0 b1 b2 b3 b4 b5 b6 b7) = of_char (Char b0 b1 b2 b3 b4 b5 b6 b7)"
  by (simp add: cp_def)

lemmas lit_eval = lit_Nil lit_Cons cp_Char

lemma replace_char_Nil: "replace_char old new [] = []"
  by (simp add: replace_char_def)

lemma replace_char_Cons:
  "replace_char old new (c # s) = (if c = old then new else [c]) @ replace_char old new s"
  by (simp add: replace_char_def)

lemma replace_char_append:
  "replace_char old new (a @ b) = replace_char old new a @ replace_char old new b"
  by (simp add: replace_char_def)

lemma escape_Nil: "escape [] = []"
  by (simp add: escape_def replace_char_Nil)

lemma escape_Cons: "escape (c # s) = entity c @ escape s"
  by (simp add: escape_def entity_def replace_char_Cons replace_char_append replace_char_Nil
      lit_eval)

lemma escape_entity: "escape s = concat (map entity s)"
  by (induction s) (simp_all add: escape_Nil escape_Cons)

lemma escape_append: "escape (a @ b) = escape a @ escape b"
  by (simp add: escape_entity)

subsection \<open>Pull-request status\<close>

text \<open>
  C5.  The status is \<open>merged\<close> for action \<open>closed\<close> with the merged flag set,
  \<open>updated\<close> for action \<open>synchronize\<close> whatever the flag, and the action itself in
  every other case; so \<open>opened\<close> stays \<open>opened\<close> and \<open>closed\<close> without the flag
  stays \<open>closed\<close>.
\<close>

theorem get_pr_status_cases:
  "get_pr_status (lit ''closed'') True = lit ''merged''
   \<and> get_pr_status (lit ''synchronize'') merged = lit ''updated''
   \<and> (\<not> (action = lit ''closed'' \<and> merged) \<and> action \<noteq> lit ''synchronize''
        \<longrightarrow> get_pr_status action merged = action)
   \<and> get_pr_status (lit ''opened'') merged = lit ''opened''
   \<and> get_pr_status (lit ''closed'') False = lit ''closed''"
  by (simp add: get_pr_status_def lit_eval)

theorem get_pr_status_cases_witness:
  "\<not> (lit ''reopened'' = lit ''closed'' \<and> True) \<and> lit ''reopened'' \<noteq> lit ''synchronize''
   \<and> get_pr_status (lit ''reopened'') True = lit ''reopened''
   \<and> get_pr_status (lit ''synchronize'') True = lit ''updated''"
  using get_pr_status_cases [where action = "lit ''reopened''" and merged = True]
  by (simp add: lit_eval)

subsection \<open>Escaping\<close>

lemma entity_no_markup:
  "cp CHR ''<'' \<notin> set (entity c) \<and> cp CHR ''>'' \<notin> set (entity c) \<and> 34 \<notin> set (entity c)"
  by (simp add: entity_def lit_eval)

lemma escape_no_markup:
  "cp CHR ''<'' \<notin> set (escape s) \<and> cp CHR ''>'' \<notin> set (escape s) \<and> 34 \<notin> set (escape s)"
  by (induction s) (simp_all add: escape_Nil escape_Cons entity_no_markup)

lemma pr_tree:
  "format_pr_message repo actor pr_num pr_title pr_url base_ref head_ref status =
     render_all
       [Bold [Text (lit ''PR '' @ status @ lit '':'')], Text (lit '' ''),
        Link pr_url [Text (lit ''#'' @ pr_num)],
        Text (lit '' '' @ em_dash @ lit '' '' @ pr_title @ nl @ lit ''Repo: '' @ repo @ nl
              @ lit ''By: '' @ actor @ nl @ head_ref @ lit '' '' @ right_arrow @ lit '' ''
              @ base_ref)]"
  by (simp add: format_pr_message_def render_all_def escape_entity lit_eval entity_def
      nl_def em_dash_def right_arrow_def dq_def)

lemma issue_tree:
  "format_issue_message repo actor issue_num issue_title issue_url status =
     render_all
       [Bold [Text (lit ''Issue '' @ status @ lit '':'')], Text (lit '' ''),
        Link issue_url [Text (lit ''#'' @ issue_num)],
        Text (lit '' '' @ em_dash @ lit '' '' @ issue_title @ nl @ lit ''Repo: '' @ repo @ nl
              @ lit ''By: '' @ actor)]"
  by (simp add: format_issue_message_def render_all_def escape_entity lit_eval entity_def
      nl_def em_dash_def dq_def)

lemma workflow_tree:
  "format_workflow_message repo actor workflow_name conclusion event_type branch run_url =
     render_all
       [Bold [Text (lit ''Workflow:'')],
        Text (lit '' '' @ workflow_name @ nl @ lit ''Repo: '' @ repo @ nl
              @ lit ''Branch: '' @ branch @ nl @ lit ''By: '' @ actor @ nl
              @ lit ''Event: '' @ event_type @ nl @ lit ''Status: ''),
        Bold [Text conclusion], Text nl,
        Link run_url [Text (lit ''Open run'')]]"
  by (simp add: format_workflow_message_def render_all_def escape_entity lit_eval entity_def
      nl_def dq_def)

subsection \<open>Commit lines\<close>

lemma opt_str_cases: "opt_str x \<Longrightarrow> x = None \<or> (\<exists>s. x = Some (JStr s))"
  by (cases x rule: opt_str.cases) simp_all

lemma get_opt_str:
  "opt_str (field kv k) \<Longrightarrow>
     py_get (JObj kv) k (JStr []) = Inr (JStr (str_or_empty (field kv k)))"
  by (auto simp: field_def dest!: opt_str_cases)

lemma get_opt_str_null:
  "opt_str (field kv k) \<Longrightarrow>
     py_get (JObj kv) k JNull =
       Inr (if field kv k = None then JNull else JStr (str_or_empty (field kv k)))"
  by (auto simp: field_def dest!: opt_str_cases)

lemma valid_author_cases:
  "valid_author x \<Longrightarrow>
     x = None \<or> (\<exists>a. x = Some (JObj a) \<and> opt_str (field a ''username'')
                      \<and> opt_str (field a ''name''))"
  by (cases x rule: valid_author.cases) simp_all

lemma resolve_author_valid:
  assumes "valid_author (field kv ''author'')"
  shows "resolve_author (JObj kv) = Inr (JStr (commit_author (JObj kv)))"
  using valid_author_cases [OF assms]
proof (elim disjE exE conjE)
  assume "field kv ''author'' = None"
  then show ?thesis
    by (simp add: resolve_author_def bind_exc_def field_def)
next
  fix a
  assume a: "field kv ''author'' = Some (JObj a)"
    and u: "opt_str (field a ''username'')" and n: "opt_str (field a ''name'')"
  from a have g: "py_get (JObj kv) ''author'' (JObj []) = Inr (JObj a)"
    by (simp add: field_def)
  show ?thesis
    using opt_str_cases [OF u] opt_str_cases [OF n]
    by (auto simp: resolve_author_def bind_exc_def g a get_opt_str_null u n
        simp del: py_get.simps)
qed

lemma replace_nl_map:
  "replace_char 10 (lit '' '') s = map (\<lambda>c. if c = 10 then 32 else c) s"
  by (induction s) (simp_all add: replace_char_Nil replace_char_Cons lit_eval)

lemma commit_line_valid:
  assumes "valid_commit c"
  shows "commit_line rt repo c = Inr (line_spec repo c)"
proof (cases c)
  case (JObj kv)
  with assms have i: "opt_str (field kv ''id'')" and m: "opt_str (field kv ''message'')"
    and a: "valid_author (field kv ''author'')"
    by simp_all
  show ?thesis
    unfolding JObj commit_line_def get_opt_str [OF i] get_opt_str [OF m]
      resolve_author_valid [OF a]
    by (simp add: bind_exc_def py_replace_nl_def py_escape_def fmt_def line_spec_def
        commit_url_def replace_nl_map del: commit_author.simps)
qed (use assms in simp_all)

lemma line_spec_tree:
  "line_spec repo c =
     render_all
       [Text (lit ''- ''),
        Link (commit_url repo c) [Verbatim (take 7 (commit_id c))],
        Text (lit '' '' @ em_dash @ lit '' '' @ commit_message c @ lit '' (by ''
              @ commit_author c @ lit '')'')]"
  by (simp add: line_spec_def render_all_def escape_entity lit_eval entity_def
      em_dash_def dq_def)

lemma push_lines_all2:
  "push_lines rt repo items = Inr lines \<Longrightarrow>
     list_all2 (\<lambda>c l. commit_line rt repo c = Inr l) items lines"
proof (induction items arbitrary: lines)
  case Nil
  then show ?case by simp
next
  case (Cons c cs)
  then show ?case
    by (auto simp: bind_exc_def split: sum.splits)
qed

lemma push_lines_valid:
  "list_all valid_commit cs \<Longrightarrow> push_lines rt repo cs = Inr (map (line_spec repo) cs)"
  by (induction cs) (simp_all add: bind_exc_def commit_line_valid)

lemma push_header_tree:
  "push_header repo actor branch @ nl =
     render_all [Text (actor @ lit '' just pushed to branch '' @ branch @ lit '' of '' @ repo
                       @ lit '':'' @ nl)]"
  by (simp add: push_header_def render_all_def escape_entity lit_eval entity_def nl_def)

lemma format_push_shape:
  assumes "format_push_message rt repo actor branch commits_data = Inr out"
  shows "\<exists>lines. out = push_header repo actor branch @ nl @ join_nl lines
           \<and> (lines = [empty_sentinel] \<or> lines = [error_sentinel]
               \<or> (lines \<noteq> [] \<and> (\<exists>d. commits_data = Some d \<and> d \<noteq> []
                      \<and> parse_commits rt repo d = Inr lines)))"
proof -
  define attempt where "attempt =
    (case commits_data of None \<Rightarrow> Inr []
     | Some d \<Rightarrow> if d = [] then Inr []
         else (case parse_commits rt repo d of
                 Inl e \<Rightarrow> if push_handles e then Inr [error_sentinel] else Inl e
               | Inr lines \<Rightarrow> Inr lines))"
  from assms obtain parsed where p: "attempt = Inr parsed"
    and out: "out = push_header repo actor branch @ nl
                @ join_nl (if parsed = [] then [empty_sentinel] else parsed)"
    by (auto simp: format_push_message_def bind_exc_def Let_def attempt_def [symmetric]
        split: sum.splits)
  from p have "parsed = [] \<or> parsed = [error_sentinel]
      \<or> (\<exists>d. commits_data = Some d \<and> d \<noteq> [] \<and> parse_commits rt repo d = Inr parsed)"
    by (auto simp: attempt_def split: option.splits if_splits sum.splits)
  with out show ?thesis
    by (intro exI [of _ "if parsed = [] then [empty_sentinel] else parsed"]) auto
qed

lemma parse_commits_items:
  assumes "parse_commits rt repo d = Inr lines"
  shows "\<exists>items. list_all2 (\<lambda>c l. commit_line rt repo c = Inr l) items lines"
  using assms
  by (auto simp: parse_commits_def bind_exc_def split: sum.splits dest: push_lines_all2)

lemma py_replace_nl_Inr:
  "py_replace_nl v = Inr m \<Longrightarrow> \<exists>s. v = JStr s \<and> m = map (\<lambda>c. if c = 10 then 32 else c) s"
  by (cases v) (simp_all add: py_replace_nl_def replace_nl_map)

lemma py_escape_Inr: "py_escape v = Inr a \<Longrightarrow> \<exists>s. v = JStr s \<and> a = escape s"
  by (cases v) (auto simp: py_escape_def)

lemma py_get_Inr:
  "py_get c k dflt = Inr v \<Longrightarrow>
     \<exists>kv. c = JObj kv \<and> v = (case field kv k of Some x \<Rightarrow> x | None \<Rightarrow> dflt)"
  by (cases c) (auto simp: field_def)

lemma falsy_str_or_empty: "\<not> truthy u \<Longrightarrow> str_or_empty (Some u) = []"
  by (cases u) simp_all

lemma truthy_str_or_empty: "str_or_empty (Some (JStr s)) = s"
  by simp

lemma first_truthy_str:
  assumes "(if truthy u then u else if truthy n then n else JStr (lit ''unknown'')) = JStr s"
  shows "(if str_or_empty (Some u) \<noteq> [] then str_or_empty (Some u)
          else if str_or_empty (Some n) \<noteq> [] then str_or_empty (Some n)
          else lit ''unknown'') = s"
  using assms
  by (cases "truthy u"; cases "truthy n") (auto simp: falsy_str_or_empty split: if_splits)

lemma resolve_author_str:
  assumes "resolve_author (JObj kv) = Inr (JStr s)"
  shows "commit_author (JObj kv) = s"
proof (cases "field kv ''author''")
  case None
  with assms show ?thesis
    by (simp add: resolve_author_def bind_exc_def field_def)
next
  case (Some a)
  then have g: "py_get (JObj kv) ''author'' (JObj []) = Inr a"
    by (simp add: field_def)
  from assms obtain akv where a: "a = JObj akv"
    unfolding resolve_author_def g
    by (cases a) (simp_all add: bind_exc_def)
  show ?thesis
  proof (cases "field akv ''username''")
    case None
    note u = this
    show ?thesis
    proof (cases "field akv ''name''")
      case None
      with assms u Some a show ?thesis
        by (simp add: resolve_author_def bind_exc_def field_def)
    next
      case (Some n)
      have "(if truthy JNull then JNull else if truthy n then n else JStr (lit ''unknown'')) = JStr s"
        using assms u Some \<open>field kv ''author'' = Some a\<close> a
        by (auto simp: resolve_author_def bind_exc_def field_def split: if_splits)
      from first_truthy_str [OF this] u Some \<open>field kv ''author'' = Some a\<close> a
      show ?thesis by (auto split: if_splits)
    qed
  next
    case (Some u)
    note u = this
    show ?thesis
    proof (cases "field akv ''name''")
      case None
      have "(if truthy u then u else if truthy JNull then JNull else JStr (lit ''unknown'')) = JStr s"
        using assms u None \<open>field kv ''author'' = Some a\<close> a
        by (auto simp: resolve_author_def bind_exc_def field_def split: if_splits)
      from first_truthy_str [OF this] u None \<open>field kv ''author'' = Some a\<close> a
      show ?thesis by (auto split: if_splits)
    next
      case (Some n)
      have "(if truthy u then u else if truthy n then n else JStr (lit ''unknown'')) = JStr s"
        using assms u Some \<open>field kv ''author'' = Some a\<close> a
        by (auto simp: resolve_author_def bind_exc_def field_def split: if_splits)
      from first_truthy_str [OF this] u Some \<open>field kv ''author'' = Some a\<close> a
      show ?thesis by (auto split: if_splits)
    qed
  qed
qed

lemma commit_line_rendered:
  assumes "commit_line rt repo c = Inr l"
  shows "\<exists>sha. py_slice 7 (commit_id_value c) = Inr sha
     \<and> l = render_all
         [Text (lit ''- ''),
          Link (lit ''https://github.com/'' @ repo @ lit ''/commit/''
                @ fmt rt (commit_id_value c)) [Verbatim (fmt rt sha)],
          Text (lit '' '' @ em_dash @ lit '' '' @ commit_message c @ lit '' (by ''
                @ commit_author c @ lit '')'')]"
proof -
  from assms obtain kv where c: "c = JObj kv"
    by (cases c) (simp_all add: commit_line_def bind_exc_def)
  have gi: "py_get (JObj kv) ''id'' (JStr []) = Inr (commit_id_value (JObj kv))"
    by (simp add: field_def)
  have gm: "py_get (JObj kv) ''message'' (JStr []) =
      Inr (case field kv ''message'' of Some v \<Rightarrow> v | None \<Rightarrow> JStr [])"
    by (simp add: field_def)
  from assms obtain sha m author a where
    sha: "py_slice 7 (commit_id_value (JObj kv)) = Inr sha"
    and m: "py_replace_nl (case field kv ''message'' of Some v \<Rightarrow> v | None \<Rightarrow> JStr []) = Inr m"
    and au: "resolve_author (JObj kv) = Inr author"
    and a: "py_escape author = Inr a"
    and l: "l = lit ''- <a href='' @ dq @ (lit ''https://github.com/'' @ repo @ lit ''/commit/''
               @ fmt rt (commit_id_value (JObj kv))) @ dq @ lit ''>'' @ fmt rt sha
               @ lit ''</a> '' @ em_dash @ lit '' '' @ escape m @ lit '' (by '' @ a @ lit '')''"
    unfolding c commit_line_def gi gm
    by (auto simp: bind_exc_def Let_def split: sum.splits)
  from a obtain s where s: "author = JStr s" "a = escape s"
    using py_escape_Inr by blast
  from au s have ca: "commit_author (JObj kv) = s"
    using resolve_author_str by simp
  from m obtain ms where ms:
    "(case field kv ''message'' of Some v \<Rightarrow> v | None \<Rightarrow> JStr []) = JStr ms"
    "m = map (\<lambda>c. if c = 10 then 32 else c) ms"
    using py_replace_nl_Inr by blast
  then have cm: "commit_message (JObj kv) = m"
    by (auto split: option.splits)
  have "l = render_all
         [Text (lit ''- ''),
          Link (lit ''https://github.com/'' @ repo @ lit ''/commit/''
                @ fmt rt (commit_id_value (JObj kv))) [Verbatim (fmt rt sha)],
          Text (lit '' '' @ em_dash @ lit '' '' @ commit_message (JObj kv) @ lit '' (by ''
                @ commit_author (JObj kv) @ lit '')'')]"
    unfolding l cm ca s(2)
    by (simp add: render_all_def escape_entity lit_eval entity_def em_dash_def dq_def)
  with sha show ?thesis
    unfolding c by blast
qed

lemma all2_push_lines:
  "list_all2 (\<lambda>c l. commit_line rt repo c = Inr l) items lines \<Longrightarrow>
     push_lines rt repo items = Inr lines"
  by (induction items lines rule: list_all2_induct) (simp_all add: bind_exc_def)

lemma format_push_rendered:
  assumes "d \<noteq> []" "json_loads rt d = Inr (JArr cs)" "cs \<noteq> []"
    and "list_all2 (\<lambda>c l. commit_line rt repo c = Inr l) (take 10 cs) ls"
  shows "format_push_message rt repo actor branch (Some d) =
     Inr (push_header repo actor branch @ nl @ join_nl ls)"
proof -
  from assms(4) have p: "push_lines rt repo (take 10 cs) = Inr ls"
    by (rule all2_push_lines)
  from assms(3,4) have "ls \<noteq> []"
    by (cases cs) (auto simp: list_all2_Cons1)
  with assms(1,2) p show ?thesis
    by (simp add: format_push_message_def parse_commits_def bind_exc_def)
qed

lemma format_push_lines:
  assumes "format_push_message rt repo actor branch commits_data = Inr out"
  shows "\<exists>lines. out = (push_header repo actor branch @ nl) @ join_nl lines
           \<and> (lines = [empty_sentinel] \<or> lines = [error_sentinel]
               \<or> (\<exists>p v first items. commits_data = Some p \<and> json_loads rt p = Inr v
                      \<and> py_slice 10 v = Inr first \<and> py_iter first = Inr items
                      \<and> list_all2 (\<lambda>c l. commit_line rt repo c = Inr l) items lines))"
proof -
  from format_push_shape [OF assms] obtain lines where
    out: "out = (push_header repo actor branch @ nl) @ join_nl lines"
    and l: "lines = [empty_sentinel] \<or> lines = [error_sentinel]
               \<or> (\<exists>p. commits_data = Some p \<and> parse_commits rt repo p = Inr lines)"
    by auto
  from l have "lines = [empty_sentinel] \<or> lines = [error_sentinel]
      \<or> (\<exists>p v first items. commits_data = Some p \<and> json_loads rt p = Inr v
             \<and> py_slice 10 v = Inr first \<and> py_iter first = Inr items
             \<and> list_all2 (\<lambda>c l. commit_line rt repo c = Inr l) items lines)"
  proof (elim disjE exE conjE)
    fix p
    assume c: "commits_data = Some p" and p: "parse_commits rt repo p = Inr lines"
    from p obtain v first items where "json_loads rt p = Inr v" "py_slice 10 v = Inr first"
      "py_iter first = Inr items" "push_lines rt repo items = Inr lines"
      by (auto simp: parse_commits_def bind_exc_def split: sum.splits)
    with c show ?thesis
      using push_lines_all2 by blast
  qed simp_all
  with out show ?thesis by blast
qed

text \<open>
  C1.  Each formatter's output is the rendering of a markup tree in which every
  free-text field (repository, actor, number, title, branch names, status,
  workflow name, conclusion, event type, commit message, commit author) sits in a
  text span, and each link target (PR URL, issue URL, run URL, commit URL) is the
  \<open>href\<close> of a link, inserted as it is.  Rendering a text span is \<open>html.escape\<close>:
  it replaces \<open>&\<close>, \<open><\<close>, \<open>>\<close> and the double quote (code point 34) by
  \<open>&amp;\<close>, \<open>&lt;\<close>, \<open>&gt;\<close> and \<open>&quot;\<close>, so none of \<open><\<close>, \<open>>\<close> and the
  double quote survives in a text span.  For a push, a message that is returned
  is the header followed by a sentinel line or by the lines of the entries the
  payload decodes to; when the payload decodes to a non-empty list whose first
  ten entries render, the message is the header followed by exactly their lines;
  and every line that an entry renders to, whatever the entry, is the tree with
  the commit URL as link target, the message and the author in a text span, and
  the short SHA inserted as it is (the one insertion that is neither a field of
  the claim's list nor escaped).  A commit object of the documented shape always
  renders.
\<close>

theorem formatters_escape_text_keep_urls:
  "format_pr_message repo actor pr_num pr_title pr_url base_ref head_ref status =
     render_all
       [Bold [Text (lit ''PR '' @ status @ lit '':'')], Text (lit '' ''),
        Link pr_url [Text (lit ''#'' @ pr_num)],
        Text (lit '' '' @ em_dash @ lit '' '' @ pr_title @ nl @ lit ''Repo: '' @ repo @ nl
              @ lit ''By: '' @ actor @ nl @ head_ref @ lit '' '' @ right_arrow @ lit '' ''
              @ base_ref)]
   \<and> format_issue_message repo actor issue_num issue_title issue_url issue_status =
     render_all
       [Bold [Text (lit ''Issue '' @ issue_status @ lit '':'')], Text (lit '' ''),
        Link issue_url [Text (lit ''#'' @ issue_num)],
        Text (lit '' '' @ em_dash @ lit '' '' @ issue_title @ nl @ lit ''Repo: '' @ repo @ nl
              @ lit ''By: '' @ actor)]
   \<and> format_workflow_message repo actor workflow_name conclusion event_type branch run_url =
     render_all
       [Bold [Text (lit ''Workflow:'')],
        Text (lit '' '' @ workflow_name @ nl @ lit ''Repo: '' @ repo @ nl
              @ lit ''Branch: '' @ branch @ nl @ lit ''By: '' @ actor @ nl
              @ lit ''Event: '' @ event_type @ nl @ lit ''Status: ''),
        Bold [Text conclusion], Text nl,
        Link run_url [Text (lit ''Open run'')]]
   \<and> (format_push_message rt repo actor branch commits_data = Inr out \<longrightarrow>
        (\<exists>lines. out =
             render_all [Text (actor @ lit '' just pushed to branch '' @ branch @ lit '' of ''
                               @ repo @ lit '':'' @ nl)] @ join_nl lines
           \<and> (lines = [empty_sentinel] \<or> lines = [error_sentinel]
               \<or> (\<exists>p v first items. commits_data = Some p \<and> json_loads rt p = Inr v
                      \<and> py_slice 10 v = Inr first \<and> py_iter first = Inr items
                      \<and> list_all2 (\<lambda>c l. commit_line rt repo c = Inr l) items lines))))
   \<and> (d \<noteq> [] \<and> json_loads rt d = Inr (JArr cs) \<and> cs \<noteq> []
        \<and> list_all2 (\<lambda>c l. commit_line rt repo c = Inr l) (take 10 cs) ls \<longrightarrow>
        format_push_message rt repo actor branch (Some d) =
          Inr (render_all [Text (actor @ lit '' just pushed to branch '' @ branch @ lit '' of ''
                                 @ repo @ lit '':'' @ nl)] @ join_nl ls))
   \<and> (commit_line rt repo c' = Inr l' \<longrightarrow>
        (\<exists>sha. py_slice 7 (commit_id_value c') = Inr sha
           \<and> l' = render_all
                 [Text (lit ''- ''),
                  Link (lit ''https://github.com/'' @ repo @ lit ''/commit/''
                        @ fmt rt (commit_id_value c')) [Verbatim (fmt rt sha)],
                  Text (lit '' '' @ em_dash @ lit '' '' @ commit_message c' @ lit '' (by ''
                        @ commit_author c' @ lit '')'')]))
   \<and> (valid_commit c \<longrightarrow>
        commit_line rt repo c =
          Inr (render_all
                 [Text (lit ''- ''),
                  Link (lit ''https://github.com/'' @ repo @ lit ''/commit/'' @ commit_id c)
                    [Verbatim (take 7 (commit_id c))],
                  Text (lit '' '' @ em_dash @ lit '' '' @ commit_message c @ lit '' (by ''
                        @ commit_author c @ lit '')'')]))
   \<and> escape s = render (Text s)
   \<and> entity (cp CHR ''&'') = lit ''&amp;'' \<and> entity (cp CHR ''<'') = lit ''&lt;''
   \<and> entity (cp CHR ''>'') = lit ''&gt;'' \<and> entity 34 = lit ''&quot;''
   \<and> cp CHR ''<'' \<notin> set (escape s) \<and> cp CHR ''>'' \<notin> set (escape s) \<and> 34 \<notin> set (escape s)"
proof -
  have push: "format_push_message rt repo actor branch commits_data = Inr out \<longrightarrow>
        (\<exists>lines. out =
             render_all [Text (actor @ lit '' just pushed to branch '' @ branch @ lit '' of ''
                               @ repo @ lit '':'' @ nl)] @ join_nl lines
           \<and> (lines = [empty_sentinel] \<or> lines = [error_sentinel]
               \<or> (\<exists>p v first items. commits_data = Some p \<and> json_loads rt p = Inr v
                      \<and> py_slice 10 v = Inr first \<and> py_iter first = Inr items
                      \<and> list_all2 (\<lambda>c l. commit_line rt repo c = Inr l) items lines)))"
    using format_push_lines unfolding push_header_tree by blast
  have push2: "d \<noteq> [] \<and> json_loads rt d = Inr (JArr cs) \<and> cs \<noteq> []
        \<and> list_all2 (\<lambda>c l. commit_line rt repo c = Inr l) (take 10 cs) ls \<longrightarrow>
        format_push_message rt repo actor branch (Some d) =
          Inr (render_all [Text (actor @ lit '' just pushed to branch '' @ branch @ lit '' of ''
                                 @ repo @ lit '':'' @ nl)] @ join_nl ls)"
    using format_push_rendered [of d rt cs repo ls actor branch]
    by (simp add: push_header_tree [symmetric])
  have line': "commit_line rt repo c' = Inr l' \<longrightarrow>
        (\<exists>sha. py_slice 7 (commit_id_value c') = Inr sha
           \<and> l' = render_all
                 [Text (lit ''- ''),
                  Link (lit ''https://github.com/'' @ repo @ lit ''/commit/''
                        @ fmt rt (commit_id_value c')) [Verbatim (fmt rt sha)],
                  Text (lit '' '' @ em_dash @ lit '' '' @ commit_message c' @ lit '' (by ''
                        @ commit_author c' @ lit '')'')])"
    using commit_line_rendered by blast
  have line: "valid_commit c \<longrightarrow>
        commit_line rt repo c =
          Inr (render_all
                 [Text (lit ''- ''),
                  Link (lit ''https://github.com/'' @ repo @ lit ''/commit/'' @ commit_id c)
                    [Verbatim (take 7 (commit_id c))],
                  Text (lit '' '' @ em_dash @ lit '' '' @ commit_message c @ lit '' (by ''
                        @ commit_author c @ lit '')'')])"
    using commit_line_valid [of c rt repo] line_spec_tree [of repo c]
    by (simp add: commit_url_def)
  have ent: "entity (cp CHR ''&'') = lit ''&amp;''" "entity (cp CHR ''<'') = lit ''&lt;''"
    "entity (cp CHR ''>'') = lit ''&gt;''" "entity 34 = lit ''&quot;''"
    by (simp_all add: entity_def lit_eval)
  have esc: "escape s = render (Text s)"
    by (simp add: escape_entity)
  have clean: "cp CHR ''<'' \<notin> set (escape s)" "cp CHR ''>'' \<notin> set (escape s)"
    "34 \<notin> set (escape s)"
    using escape_no_markup [of s] by simp_all
  show ?thesis
    by (intro conjI pr_tree issue_tree workflow_tree push push2 line' line esc ent clean)
qed

text \<open>Running the model on the sample inputs unfolds these definitions.\<close>

lemmas sample_eval = sample_commit_def sample_payload_def sample_loads_def sample_rt_def
  quoted_def ok_reply_def

lemma markup_commit_valid: "valid_commit markup_commit"
  by (simp add: markup_commit_def field_def lit_eval)

theorem formatters_escape_text_keep_urls_witness:
  "valid_commit markup_commit
   \<and> commit_line sample_rt (lit ''o/r'') markup_commit =
       Inr (lit ''- <a href='' @ dq @ lit ''https://github.com/o/r/commit/abcdef1234567'' @ dq
            @ lit ''>abcdef1</a> '' @ em_dash @ lit '' a&lt;b (by R&amp;D)'')
   \<and> lit ''p'' \<noteq> []
   \<and> json_loads (sample_rt\<lparr>json_loads := \<lambda>p. Inr (JArr [markup_commit])\<rparr>) (lit ''p'') =
       Inr (JArr [markup_commit])
   \<and> list_all2 (\<lambda>c l. commit_line (sample_rt\<lparr>json_loads := \<lambda>p. Inr (JArr [markup_commit])\<rparr>)
                          (lit ''o/r'') c = Inr l)
        (take 10 [markup_commit])
        [lit ''- <a href='' @ dq @ lit ''https://github.com/o/r/commit/abcdef1234567'' @ dq
            @ lit ''>abcdef1</a> '' @ em_dash @ lit '' a&lt;b (by R&amp;D)'']
   \<and> format_push_message (sample_rt\<lparr>json_loads := \<lambda>p. Inr (JArr [markup_commit])\<rparr>)
        (lit ''o/r'') (lit ''a<b'') (lit ''main'') (Some (lit ''p'')) =
       Inr (lit ''a&lt;b just pushed to branch main of o/r:'' @ nl
            @ lit ''- <a href='' @ dq @ lit ''https://github.com/o/r/commit/abcdef1234567'' @ dq
            @ lit ''>abcdef1</a> '' @ em_dash @ lit '' a&lt;b (by R&amp;D)'')
   \<and> (\<exists>sha. py_slice 7 (commit_id_value markup_commit) = Inr sha
          \<and> lit ''- <a href='' @ dq @ lit ''https://github.com/o/r/commit/abcdef1234567'' @ dq
            @ lit ''>abcdef1</a> '' @ em_dash @ lit '' a&lt;b (by R&amp;D)'' =
            render_all
              [Text (lit ''- ''),
               Link (lit ''https://github.com/'' @ lit ''o/r'' @ lit ''/commit/''
                     @ fmt sample_rt (commit_id_value markup_commit))
                 [Verbatim (fmt sample_rt sha)],
               Text (lit '' '' @ em_dash @ lit '' '' @ commit_message markup_commit
                     @ lit '' (by '' @ commit_author markup_commit @ lit '')'')])
   \<and> format_push_message sample_rt (lit ''o/r'') (lit ''a<b'') (lit ''main'') None =
       Inr (lit ''a&lt;b just pushed to branch main of o/r:'' @ nl @ empty_sentinel)
   \<and> (\<exists>lines. lit ''a&lt;b just pushed to branch main of o/r:'' @ nl @ empty_sentinel =
          render_all [Text (lit ''a<b'' @ lit '' just pushed to branch '' @ lit ''main''
                            @ lit '' of '' @ lit ''o/r'' @ lit '':'' @ nl)] @ join_nl lines)"
proof -
  note t = formatters_escape_text_keep_urls [where repo = "lit ''o/r''"
      and actor = "lit ''a<b''" and branch = "lit ''main''" and c = markup_commit
      and c' = markup_commit and d = "lit ''p''" and cs = "[markup_commit]"
      and l' = "lit ''- <a href='' @ dq @ lit ''https://github.com/o/r/commit/abcdef1234567'' @ dq
            @ lit ''>abcdef1</a> '' @ em_dash @ lit '' a&lt;b (by R&amp;D)''"
      and ls = "[lit ''- <a href='' @ dq @ lit ''https://github.com/o/r/commit/abcdef1234567'' @ dq
            @ lit ''>abcdef1</a> '' @ em_dash @ lit '' a&lt;b (by R&amp;D)'']"]
  note t1 = t [where rt = sample_rt and commits_data = None
      and out = "lit ''a&lt;b just pushed to branch main of o/r:'' @ nl @ empty_sentinel"]
  note t2 = t [where rt = "sample_rt\<lparr>json_loads := \<lambda>p. Inr (JArr [markup_commit])\<rparr>"]
  have ev: "render_all
        [Text (lit ''- ''),
         Link (lit ''https://github.com/'' @ lit ''o/r'' @ lit ''/commit/''
               @ commit_id markup_commit) [Verbatim (take 7 (commit_id markup_commit))],
         Text (lit '' '' @ em_dash @ lit '' '' @ commit_message markup_commit @ lit '' (by ''
               @ commit_author markup_commit @ lit '')'')] =
      lit ''- <a href='' @ dq @ lit ''https://github.com/o/r/commit/abcdef1234567'' @ dq
            @ lit ''>abcdef1</a> '' @ em_dash @ lit '' a&lt;b (by R&amp;D)''"
    by (simp add: render_all_def markup_commit_def field_def lit_eval entity_def em_dash_def
        dq_def)
  from t1 markup_commit_valid
  have l1: "commit_line sample_rt (lit ''o/r'') markup_commit =
       Inr (lit ''- <a href='' @ dq @ lit ''https://github.com/o/r/commit/abcdef1234567'' @ dq
            @ lit ''>abcdef1</a> '' @ em_dash @ lit '' a&lt;b (by R&amp;D)'')"
    unfolding ev by blast
  from t2 markup_commit_valid
  have l2: "commit_line (sample_rt\<lparr>json_loads := \<lambda>p. Inr (JArr [markup_commit])\<rparr>)
        (lit ''o/r'') markup_commit =
       Inr (lit ''- <a href='' @ dq @ lit ''https://github.com/o/r/commit/abcdef1234567'' @ dq
            @ lit ''>abcdef1</a> '' @ em_dash @ lit '' a&lt;b (by R&amp;D)'')"
    unfolding ev by blast
  have p: "lit ''p'' \<noteq> []"
    by (simp add: lit_eval)
  have j: "json_loads (sample_rt\<lparr>json_loads := \<lambda>p. Inr (JArr [markup_commit])\<rparr>) (lit ''p'') =
       Inr (JArr [markup_commit])"
    by simp
  have a2: "list_all2 (\<lambda>c l. commit_line (sample_rt\<lparr>json_loads := \<lambda>p. Inr (JArr [markup_commit])\<rparr>)
                          (lit ''o/r'') c = Inr l)
        (take 10 [markup_commit])
        [lit ''- <a href='' @ dq @ lit ''https://github.com/o/r/commit/abcdef1234567'' @ dq
            @ lit ''>abcdef1</a> '' @ em_dash @ lit '' a&lt;b (by R&amp;D)'']"
    using l2 by simp
  have hd: "render_all [Text (lit ''a<b'' @ lit '' just pushed to branch '' @ lit ''main''
                            @ lit '' of '' @ lit ''o/r'' @ lit '':'' @ nl)] =
      lit ''a&lt;b just pushed to branch main of o/r:'' @ nl"
    by (simp add: render_all_def lit_eval entity_def nl_def)
  from t2 p j a2
  have f: "format_push_message (sample_rt\<lparr>json_loads := \<lambda>p. Inr (JArr [markup_commit])\<rparr>)
        (lit ''o/r'') (lit ''a<b'') (lit ''main'') (Some (lit ''p'')) =
       Inr (render_all [Text (lit ''a<b'' @ lit '' just pushed to branch '' @ lit ''main''
                            @ lit '' of '' @ lit ''o/r'' @ lit '':'' @ nl)]
            @ join_nl [lit ''- <a href='' @ dq @ lit ''https://github.com/o/r/commit/abcdef1234567'' @ dq
            @ lit ''>abcdef1</a> '' @ em_dash @ lit '' a&lt;b (by R&amp;D)''])"
    by simp
  from t1 l1
  have r: "\<exists>sha. py_slice 7 (commit_id_value markup_commit) = Inr sha
          \<and> lit ''- <a href='' @ dq @ lit ''https://github.com/o/r/commit/abcdef1234567'' @ dq
            @ lit ''>abcdef1</a> '' @ em_dash @ lit '' a&lt;b (by R&amp;D)'' =
            render_all
              [Text (lit ''- ''),
               Link (lit ''https://github.com/'' @ lit ''o/r'' @ lit ''/commit/''
                     @ fmt sample_rt (commit_id_value markup_commit))
                 [Verbatim (fmt sample_rt sha)],
               Text (lit '' '' @ em_dash @ lit '' '' @ commit_message markup_commit
                     @ lit '' (by '' @ commit_author markup_commit @ lit '')'')]"
    by blast
  have n: "format_push_message sample_rt (lit ''o/r'') (lit ''a<b'') (lit ''main'') None =
     Inr (lit ''a&lt;b just pushed to branch main of o/r:'' @ nl @ empty_sentinel)"
    by (simp add: format_push_message_def bind_exc_def push_header_def escape_entity
        entity_def lit_eval)
  from t1 n
  have e: "\<exists>lines. lit ''a&lt;b just pushed to branch main of o/r:'' @ nl @ empty_sentinel =
          render_all [Text (lit ''a<b'' @ lit '' just pushed to branch '' @ lit ''main''
                            @ lit '' of '' @ lit ''o/r'' @ lit '':'' @ nl)] @ join_nl lines"
    by blast
  from f have f': "format_push_message (sample_rt\<lparr>json_loads := \<lambda>p. Inr (JArr [markup_commit])\<rparr>)
        (lit ''o/r'') (lit ''a<b'') (lit ''main'') (Some (lit ''p'')) =
       Inr (lit ''a&lt;b just pushed to branch main of o/r:'' @ nl
            @ lit ''- <a href='' @ dq @ lit ''https://github.com/o/r/commit/abcdef1234567'' @ dq
            @ lit ''>abcdef1</a> '' @ em_dash @ lit '' a&lt;b (by R&amp;D)'')"
    unfolding hd by simp
  show ?thesis
    by (intro conjI markup_commit_valid l1 p j a2 f' r n e)
qed

subsection \<open>Push formatter\<close>

lemma bind_exc_simps:
  "bind_exc (Inl e) f = Inl e" "bind_exc (Inr a) f = f a"
  by (simp_all add: bind_exc_def)

lemma parse_commits_valid:
  assumes "json_loads rt d = Inr (JArr cs)" "list_all valid_commit (take 10 cs)"
  shows "parse_commits rt repo d = Inr (map (line_spec repo) (take 10 cs))"
  using assms by (simp add: parse_commits_def bind_exc_simps push_lines_valid)

lemma format_push_parsed:
  assumes "d \<noteq> []" "parse_commits rt repo d = Inr lines"
  shows "format_push_message rt repo actor branch (Some d) =
           Inr (push_header repo actor branch @ nl
                @ join_nl (if lines = [] then [empty_sentinel] else lines))"
  using assms by (simp add: format_push_message_def bind_exc_simps)

lemma format_push_handled:
  assumes "d \<noteq> []" "parse_commits rt repo d = Inl e" "push_handles e"
  shows "format_push_message rt repo actor branch (Some d) =
           Inr (push_header repo actor branch @ nl @ error_sentinel)"
  using assms by (simp add: format_push_message_def bind_exc_simps)

lemma format_push_unhandled:
  assumes "d \<noteq> []" "parse_commits rt repo d = Inl e" "\<not> push_handles e"
  shows "format_push_message rt repo actor branch (Some d) = Inl e"
  using assms by (simp add: format_push_message_def bind_exc_simps)

lemma format_push_absent:
  "format_push_message rt repo actor branch None =
     Inr (push_header repo actor branch @ nl @ empty_sentinel)"
  "format_push_message rt repo actor branch (Some []) =
     Inr (push_header repo actor branch @ nl @ empty_sentinel)"
  by (simp_all add: format_push_message_def bind_exc_simps)

text \<open>
  C6.  When a non-empty payload decodes to a list whose first ten entries are
  commit objects, the lines are those of the first ten entries, in their order
  and no more (ten lines for fifteen entries).  Each line is
  \<open>- <a href="https://github.com/{repo}/commit/{id}">{first 7 characters of id}</a>
  \<emdash> {escaped message} (by {escaped author})\<close>, where a missing \<open>id\<close> or
  message is the empty string, line breaks of the message become spaces, and the
  author is the user name, else the name, else \<open>unknown\<close>.  The message is the
  header line followed by these lines.
\<close>

theorem push_renders_first_ten:
  assumes "d \<noteq> []" and "json_loads rt d = Inr (JArr cs)"
    and "list_all valid_commit (take 10 cs)"
  shows "parse_commits rt repo d = Inr (map (line_spec repo) (take 10 cs))
    \<and> length (map (line_spec repo) (take 10 cs)) = min 10 (length cs)
    \<and> (length cs = 15 \<longrightarrow> length (map (line_spec repo) (take 10 cs)) = 10)
    \<and> (\<forall>i. i < min 10 (length cs) \<longrightarrow>
          map (line_spec repo) (take 10 cs) ! i = line_spec repo (cs ! i))
    \<and> format_push_message rt repo actor branch (Some d) =
        Inr (push_header repo actor branch @ nl
             @ join_nl (if cs = [] then [empty_sentinel]
                        else map (line_spec repo) (take 10 cs)))
    \<and> (\<forall>c. line_spec repo c =
          lit ''- <a href='' @ dq @ lit ''https://github.com/'' @ repo @ lit ''/commit/''
            @ commit_id c @ dq @ lit ''>'' @ take 7 (commit_id c) @ lit ''</a> '' @ em_dash
            @ lit '' '' @ escape (commit_message c) @ lit '' (by ''
            @ escape (commit_author c) @ lit '')'')"
proof -
  have p: "parse_commits rt repo d = Inr (map (line_spec repo) (take 10 cs))"
    using assms(2,3) by (rule parse_commits_valid)
  have f: "format_push_message rt repo actor branch (Some d) =
        Inr (push_header repo actor branch @ nl
             @ join_nl (if cs = [] then [empty_sentinel]
                        else map (line_spec repo) (take 10 cs)))"
    using format_push_parsed [OF assms(1) p] by simp
  have n: "\<forall>i. i < min 10 (length cs) \<longrightarrow>
          map (line_spec repo) (take 10 cs) ! i = line_spec repo (cs ! i)"
    by simp
  have l: "\<forall>c. line_spec repo c =
          lit ''- <a href='' @ dq @ lit ''https://github.com/'' @ repo @ lit ''/commit/''
            @ commit_id c @ dq @ lit ''>'' @ take 7 (commit_id c) @ lit ''</a> '' @ em_dash
            @ lit '' '' @ escape (commit_message c) @ lit '' (by ''
            @ escape (commit_author c) @ lit '')''"
    by (simp add: line_spec_def commit_url_def)
  show ?thesis
    using p f n l by simp
qed

lemma sample_payload_loads:
  "sample_payload \<noteq> []" "json_loads sample_rt sample_payload = Inr (JArr [sample_commit])"
  by (simp_all add: sample_rt_def sample_loads_def sample_payload_def quoted_def dq_def lit_eval ok_reply_def)

lemma sample_commit_valid: "valid_commit sample_commit"
  by (simp add: sample_commit_def field_def lit_eval)

theorem push_renders_first_ten_witness:
  "sample_payload \<noteq> []
   \<and> json_loads sample_rt sample_payload = Inr (JArr [sample_commit])
   \<and> list_all valid_commit (take 10 [sample_commit])
   \<and> format_push_message sample_rt (lit ''o/r'') (lit ''bob'') (lit ''main'')
        (Some sample_payload) =
       Inr (lit ''bob just pushed to branch main of o/r:'' @ nl
            @ lit ''- <a href='' @ dq @ lit ''https://github.com/o/r/commit/abcdef1234567'' @ dq
            @ lit ''>abcdef1</a> '' @ em_dash @ lit '' fix bug (by alice)'')
   \<and> json_loads (sample_rt\<lparr>json_loads := \<lambda>d. Inr (JArr (replicate 15 sample_commit))\<rparr>)
        sample_payload = Inr (JArr (replicate 15 sample_commit))
   \<and> list_all valid_commit (take 10 (replicate 15 sample_commit))
   \<and> parse_commits (sample_rt\<lparr>json_loads := \<lambda>d. Inr (JArr (replicate 15 sample_commit))\<rparr>)
        (lit ''o/r'') sample_payload =
       Inr (replicate 10 (line_spec (lit ''o/r'') sample_commit))"
proof -
  have v: "list_all valid_commit (take 10 [sample_commit])"
    by (simp add: sample_commit_valid)
  have v15: "list_all valid_commit (take 10 (replicate 15 sample_commit))"
    by (simp add: list_all_iff sample_commit_valid)
  have l15: "json_loads (sample_rt\<lparr>json_loads := \<lambda>d. Inr (JArr (replicate 15 sample_commit))\<rparr>)
        sample_payload = Inr (JArr (replicate 15 sample_commit))"
    by simp
  from push_renders_first_ten [OF sample_payload_loads v, of "lit ''o/r''" "lit ''bob''" "lit ''main''"]
  have "format_push_message sample_rt (lit ''o/r'') (lit ''bob'') (lit ''main'')
        (Some sample_payload) =
       Inr (push_header (lit ''o/r'') (lit ''bob'') (lit ''main'') @ nl
             @ join_nl (map (line_spec (lit ''o/r'')) (take 10 [sample_commit])))"
    by simp
  then have one: "format_push_message sample_rt (lit ''o/r'') (lit ''bob'') (lit ''main'')
        (Some sample_payload) =
       Inr (lit ''bob just pushed to branch main of o/r:'' @ nl
            @ lit ''- <a href='' @ dq @ lit ''https://github.com/o/r/commit/abcdef1234567'' @ dq
            @ lit ''>abcdef1</a> '' @ em_dash @ lit '' fix bug (by alice)'')"
    by (simp add: push_header_def line_spec_def commit_url_def sample_commit_def field_def
        escape_entity entity_def lit_eval nl_def)
  from push_renders_first_ten [OF sample_payload_loads(1) l15 v15, of "lit ''o/r''"]
  have fifteen: "parse_commits
        (sample_rt\<lparr>json_loads := \<lambda>d. Inr (JArr (replicate 15 sample_commit))\<rparr>)
        (lit ''o/r'') sample_payload =
       Inr (replicate 10 (line_spec (lit ''o/r'') sample_commit))"
    by simp
  show ?thesis
    using sample_payload_loads v one l15 v15 fifteen by simp
qed

lemma sentinels_differ: "error_sentinel \<noteq> empty_sentinel"
  by (simp add: error_sentinel_def empty_sentinel_def em_dash_def lit_eval)

lemma commit_line_dash: "commit_line rt repo c = Inr l \<Longrightarrow> \<exists>r. l = 45 # r"
  by (auto simp: commit_line_def bind_exc_def Let_def lit_eval split: sum.splits)

lemma join_nl_Cons: "\<exists>r. join_nl (l # ls) = l @ r"
  by (cases ls) simp_all

lemma push_lines_not_sentinel:
  assumes "push_lines rt repo items = Inr (l # ls)"
  shows "join_nl (l # ls) \<noteq> empty_sentinel"
proof -
  from push_lines_all2 [OF assms] obtain c where "commit_line rt repo c = Inr l"
    by (auto simp: list_all2_Cons2)
  then obtain r where "l = 45 # r"
    using commit_line_dash by blast
  moreover obtain r' where "join_nl (l # ls) = l @ r'"
    using join_nl_Cons by blast
  ultimately show ?thesis
    by (simp add: empty_sentinel_def em_dash_def)
qed

lemma py_slice_iter_empty:
  assumes "py_slice n v = Inr first" "py_iter first = Inr []" "0 < n"
  shows "v = JArr [] \<or> v = JStr []"
  using assms by (cases v) (auto simp: take_eq_Nil)

lemma push_lines_Nil: "push_lines rt repo items = Inr [] \<Longrightarrow> items = []"
  by (cases items) (auto simp: bind_exc_def split: sum.splits)

lemma parse_commits_Inr:
  assumes "parse_commits rt repo d = Inr lines"
  shows "\<exists>v first items. json_loads rt d = Inr v \<and> py_slice 10 v = Inr first
           \<and> py_iter first = Inr items \<and> push_lines rt repo items = Inr lines"
  using assms by (auto simp: parse_commits_def bind_exc_def split: sum.splits)

lemma empty_sentinel_only_if:
  assumes "format_push_message rt repo actor branch commits_data =
             Inr (push_header repo actor branch @ nl @ empty_sentinel)"
  shows "commits_data = None \<or> commits_data = Some []
         \<or> (\<exists>d. commits_data = Some d
                \<and> (json_loads rt d = Inr (JArr []) \<or> json_loads rt d = Inr (JStr [])))"
proof -
  show ?thesis
  proof (cases commits_data)
    case None
    then show ?thesis by simp
  next
    case (Some d)
    show ?thesis
    proof (cases "d = []")
      case True
      with Some show ?thesis by simp
    next
      case False
      show ?thesis
      proof (cases "parse_commits rt repo d")
        case (Inl e)
        with assms Some False show ?thesis
          by (cases "push_handles e")
            (simp_all add: format_push_handled format_push_unhandled sentinels_differ)
      next
        case (Inr ls)
        from parse_commits_Inr [OF Inr] obtain v first items where
          v: "json_loads rt d = Inr v" and s: "py_slice 10 v = Inr first"
          and i: "py_iter first = Inr items" and p: "push_lines rt repo items = Inr ls"
          by blast
        show ?thesis
        proof (cases ls)
          case Nil
          with p have "items = []" by (simp add: push_lines_Nil)
          with s i have "v = JArr [] \<or> v = JStr []"
            using py_slice_iter_empty by simp
          with v Some show ?thesis by auto
        next
          case (Cons x xs)
          with p have "join_nl ls \<noteq> empty_sentinel"
            using push_lines_not_sentinel by simp
          moreover from assms Some False Inr Cons
          have "join_nl ls = empty_sentinel"
            by (simp add: format_push_parsed)
          ultimately show ?thesis by simp
        qed
      qed
    qed
  qed
qed

lemma py_slice_unsliceable: "\<not> sliceable v \<Longrightarrow> py_slice n v = Inl TypeError"
  by (cases v) simp_all

lemma py_get_non_object: "\<not> is_object v \<Longrightarrow> py_get v k dflt = Inl AttributeError"
  by (cases v) simp_all

lemma push_handles_simps:
  "push_handles JSONDecodeError" "push_handles KeyError" "push_handles TypeError"
  "\<not> push_handles AttributeError" "\<not> push_handles ValueError"
  "\<not> push_handles RecursionError"
  by (simp_all add: push_handles_def)

lemma parse_commits_decode_error:
  "json_loads rt d = Inl e \<Longrightarrow> parse_commits rt repo d = Inl e"
  by (simp add: parse_commits_def bind_exc_simps)

lemma parse_commits_unsliceable:
  "json_loads rt d = Inr v \<Longrightarrow> \<not> sliceable v \<Longrightarrow> parse_commits rt repo d = Inl TypeError"
  by (simp add: parse_commits_def bind_exc_simps py_slice_unsliceable)

lemma parse_commits_list:
  "json_loads rt d = Inr (JArr cs) \<Longrightarrow>
     parse_commits rt repo d = push_lines rt repo (take 10 cs)"
  by (simp add: parse_commits_def bind_exc_simps)

lemma commit_line_bad_id:
  assumes "field kv ''id'' = Some i" "\<not> sliceable i"
  shows "commit_line rt repo (JObj kv) = Inl TypeError"
  using assms by (simp add: commit_line_def bind_exc_simps field_def py_slice_unsliceable)

lemma commit_line_non_object:
  "\<not> is_object c \<Longrightarrow> commit_line rt repo c = Inl AttributeError"
  by (simp add: commit_line_def bind_exc_simps py_get_non_object)

lemma commit_line_bad_author:
  assumes "opt_str (field kv ''id'')" "opt_str (field kv ''message'')"
    "field kv ''author'' = Some a" "\<not> is_object a"
  shows "commit_line rt repo (JObj kv) = Inl AttributeError"
proof -
  from assms(3) have g: "py_get (JObj kv) ''author'' (JObj []) = Inr a"
    by (simp add: field_def)
  have "resolve_author (JObj kv) = Inl AttributeError"
    unfolding resolve_author_def g
    by (simp add: bind_exc_simps py_get_non_object [OF assms(4)])
  then show ?thesis
    unfolding commit_line_def get_opt_str [OF assms(1)] get_opt_str [OF assms(2)]
    by (simp add: bind_exc_simps py_replace_nl_def)
qed

text \<open>
  C3, as the code has it.  An absent or empty payload is not parsed and gives
  the line \<open>\<emdash> no commit messages \<emdash>\<close>.  A non-empty payload on which
  \<open>json.loads\<close> raises \<open>JSONDecodeError\<close>, or which decodes to a value that
  cannot be sliced (a mapping, a number, a boolean, null), or to a list whose
  first entry is a mapping with an \<open>id\<close> that cannot be sliced, gives the single
  line \<open>\<emdash> error parsing commits \<emdash>\<close>.  A payload
  that decodes to the empty list gives \<open>\<emdash> no commit messages \<emdash>\<close>, and that
  line is the whole body only when the payload is absent or empty or decodes to
  an empty list or an empty string.
\<close>

theorem push_sentinels:
  "(commits_data = None \<or> commits_data = Some [] \<longrightarrow>
      format_push_message rt repo actor branch commits_data =
        Inr (push_header repo actor branch @ nl @ empty_sentinel))
   \<and> (d \<noteq> [] \<and> json_loads rt d = Inl JSONDecodeError \<longrightarrow>
      format_push_message rt repo actor branch (Some d) =
        Inr (push_header repo actor branch @ nl @ error_sentinel))
   \<and> (d \<noteq> [] \<and> json_loads rt d = Inr v \<and> \<not> sliceable v \<longrightarrow>
      format_push_message rt repo actor branch (Some d) =
        Inr (push_header repo actor branch @ nl @ error_sentinel))
   \<and> (d \<noteq> [] \<and> json_loads rt d = Inr (JArr (JObj kv # cs)) \<and> field kv ''id'' = Some i
        \<and> \<not> sliceable i \<longrightarrow>
      format_push_message rt repo actor branch (Some d) =
        Inr (push_header repo actor branch @ nl @ error_sentinel))
   \<and> (d \<noteq> [] \<and> json_loads rt d = Inr (JArr []) \<longrightarrow>
      format_push_message rt repo actor branch (Some d) =
        Inr (push_header repo actor branch @ nl @ empty_sentinel))
   \<and> (format_push_message rt repo actor branch commits_data =
        Inr (push_header repo actor branch @ nl @ empty_sentinel) \<longrightarrow>
      commits_data = None \<or> commits_data = Some []
      \<or> (\<exists>p. commits_data = Some p
             \<and> (json_loads rt p = Inr (JArr []) \<or> json_loads rt p = Inr (JStr []))))
   \<and> error_sentinel \<noteq> empty_sentinel"
proof -
  have a: "commits_data = None \<or> commits_data = Some [] \<longrightarrow>
      format_push_message rt repo actor branch commits_data =
        Inr (push_header repo actor branch @ nl @ empty_sentinel)"
    by (auto simp: format_push_absent)
  have b: "d \<noteq> [] \<and> json_loads rt d = Inl JSONDecodeError \<longrightarrow>
      format_push_message rt repo actor branch (Some d) =
        Inr (push_header repo actor branch @ nl @ error_sentinel)"
    by (simp add: format_push_handled parse_commits_decode_error push_handles_simps)
  have c: "d \<noteq> [] \<and> json_loads rt d = Inr v \<and> \<not> sliceable v \<longrightarrow>
      format_push_message rt repo actor branch (Some d) =
        Inr (push_header repo actor branch @ nl @ error_sentinel)"
    by (simp add: format_push_handled parse_commits_unsliceable push_handles_simps)
  have e: "d \<noteq> [] \<and> json_loads rt d = Inr (JArr (JObj kv # cs)) \<and> field kv ''id'' = Some i
        \<and> \<not> sliceable i \<longrightarrow>
      format_push_message rt repo actor branch (Some d) =
        Inr (push_header repo actor branch @ nl @ error_sentinel)"
  proof (intro impI, elim conjE)
    assume d: "d \<noteq> []" and l: "json_loads rt d = Inr (JArr (JObj kv # cs))"
      and i: "field kv ''id'' = Some i" "\<not> sliceable i"
    have "parse_commits rt repo d = Inl TypeError"
      by (simp add: parse_commits_list [OF l] bind_exc_simps commit_line_bad_id [OF i])
    with d show "format_push_message rt repo actor branch (Some d) =
        Inr (push_header repo actor branch @ nl @ error_sentinel)"
      by (simp add: format_push_handled push_handles_simps)
  qed
  have f: "d \<noteq> [] \<and> json_loads rt d = Inr (JArr []) \<longrightarrow>
      format_push_message rt repo actor branch (Some d) =
        Inr (push_header repo actor branch @ nl @ empty_sentinel)"
    by (simp add: format_push_parsed parse_commits_list)
  have g: "format_push_message rt repo actor branch commits_data =
        Inr (push_header repo actor branch @ nl @ empty_sentinel) \<longrightarrow>
      commits_data = None \<or> commits_data = Some []
      \<or> (\<exists>p. commits_data = Some p
             \<and> (json_loads rt p = Inr (JArr []) \<or> json_loads rt p = Inr (JStr [])))"
    using empty_sentinel_only_if by blast
  show ?thesis
    by (intro conjI a b c e f g sentinels_differ)
qed

theorem push_sentinels_witness:
  "lit ''oops'' \<noteq> [] \<and> json_loads sample_rt (lit ''oops'') = Inl JSONDecodeError
   \<and> format_push_message sample_rt (lit ''o/r'') (lit ''bob'') (lit ''main'')
        (Some (lit ''oops'')) =
       Inr (lit ''bob just pushed to branch main of o/r:'' @ nl @ error_sentinel)
   \<and> json_loads sample_rt (lit ''7'') = Inr (JInt 7) \<and> \<not> sliceable (JInt 7)
   \<and> format_push_message sample_rt (lit ''o/r'') (lit ''bob'') (lit ''main'')
        (Some (lit ''7'')) =
       Inr (lit ''bob just pushed to branch main of o/r:'' @ nl @ error_sentinel)
   \<and> json_loads sample_rt (lit ''[]'') = Inr (JArr [])
   \<and> format_push_message sample_rt (lit ''o/r'') (lit ''bob'') (lit ''main'')
        (Some (lit ''[]'')) =
       Inr (lit ''bob just pushed to branch main of o/r:'' @ nl @ empty_sentinel)
   \<and> format_push_message sample_rt (lit ''o/r'') (lit ''bob'') (lit ''main'') (Some []) =
       Inr (lit ''bob just pushed to branch main of o/r:'' @ nl @ empty_sentinel)"
proof -
  have h: "push_header (lit ''o/r'') (lit ''bob'') (lit ''main'') =
      lit ''bob just pushed to branch main of o/r:''"
    by (simp add: push_header_def escape_entity entity_def lit_eval)
  have l1: "lit ''oops'' \<noteq> []" "json_loads sample_rt (lit ''oops'') = Inl JSONDecodeError"
    by (simp_all add: sample_eval dq_def lit_eval)
  have l2: "lit ''7'' \<noteq> []" "json_loads sample_rt (lit ''7'') = Inr (JInt 7)" "\<not> sliceable (JInt 7)"
    by (simp_all add: sample_eval dq_def lit_eval)
  have l3: "lit ''[]'' \<noteq> []" "json_loads sample_rt (lit ''[]'') = Inr (JArr [])"
    by (simp_all add: sample_eval dq_def lit_eval)
  note t1 = push_sentinels [where rt = sample_rt and d = "lit ''oops''" and repo = "lit ''o/r''"
      and actor = "lit ''bob''" and branch = "lit ''main''" and commits_data = "Some []"]
  note t2 = push_sentinels [where rt = sample_rt and d = "lit ''7''" and v = "JInt 7"
      and repo = "lit ''o/r''" and actor = "lit ''bob''" and branch = "lit ''main''"]
  note t3 = push_sentinels [where rt = sample_rt and d = "lit ''[]''"
      and repo = "lit ''o/r''" and actor = "lit ''bob''" and branch = "lit ''main''"]
  show ?thesis
    using t1 t2 t3 l1 l2 l3 by (simp add: h)
qed

text \<open>
  C3 as stated fails: with no payload at all the body is the line for no commit
  messages, not the line for a parse error.
\<close>

theorem absent_payload_counterexample:
  "format_push_message sample_rt (lit ''o/r'') (lit ''bob'') (lit ''main'') None =
     Inr (lit ''bob just pushed to branch main of o/r:'' @ nl @ empty_sentinel)
   \<and> format_push_message sample_rt (lit ''o/r'') (lit ''bob'') (lit ''main'') None \<noteq>
     Inr (lit ''bob just pushed to branch main of o/r:'' @ nl @ error_sentinel)"
  by (simp add: format_push_message_def bind_exc_def push_header_def escape_entity entity_def
      lit_eval error_sentinel_def empty_sentinel_def)

subsection \<open>Notifier\<close>


lemma bind_ret: "bind (ret a) f = f a"
  by (simp add: bind_def ret_def split: prod.splits)

lemma bind_Return: "bind (Return a, t) f = (fst (f a), t @ snd (f a))"
  by (simp add: bind_def split: prod.splits)

lemma bind_SysExit: "bind (SysExit n, t) f = (SysExit n, t)"
  by (simp add: bind_def)

lemma bind_Raised: "bind (Raised e, t) f = (Raised e, t)"
  by (simp add: bind_def)

lemmas bind_simps = bind_ret bind_Return bind_SysExit bind_Raised




lemma read_reply_object:
  "urlopen_read rt req = Inr body \<Longrightarrow> json_loads rt body = Inr (JObj kv) \<Longrightarrow>
     read_reply rt req = Inr (if ok_field kv then None else Some (description kv))"
  by (simp add: read_reply_def bind_exc_simps ok_field_def description_def field_def
      split: option.splits)

lemma try_except_simps:
  "try_except (Return a, t) h = (Return a, t)"
  "try_except (SysExit n, t) h = (SysExit n, t)"
  "try_except (Raised e, t) h = (fst (h e), t @ snd (h e))"
  by (simp_all add: try_except_def split: prod.splits)

lemma try_print_out_cases:
  "stdout_raises rt s = None \<Longrightarrow> try_print_out rt s = (Return (), [Stdout s])"
  "stdout_raises rt s = Some e \<Longrightarrow> try_print_out rt s = (Raised e, [])"
  by (simp_all add: try_print_out_def)

lemma try_print_err_cases:
  "stderr_raises rt s = None \<Longrightarrow> try_print_err rt s = (Return (), [Stderr s])"
  "stderr_raises rt s = Some e \<Longrightarrow> try_print_err rt s = (Raised e, [])"
  by (simp_all add: try_print_err_def)

lemma send_failed_cases:
  "stderr_raises rt (send_failed_line (exc_text rt e)) = None \<Longrightarrow>
     send_failed rt e = (Return False, [Stderr (send_failed_line (exc_text rt e))])"
  "stderr_raises rt (send_failed_line (exc_text rt e)) = Some e' \<Longrightarrow>
     send_failed rt e = (Raised e', [])"
  by (simp_all add: send_failed_def try_print_err_cases bind_simps ret_def)

lemma send_failed_result:
  "send_failed rt e = (Return False, [Stderr (send_failed_line (exc_text rt e))])
   \<or> (\<exists>e'. send_failed rt e = (Raised e', []))"
  by (cases "stderr_raises rt (send_failed_line (exc_text rt e))")
    (simp_all add: send_failed_cases)

text \<open>What the handler leaves behind once the request has been recorded.\<close>

lemma send_unfold:
  assumes "urlencode rt (request_data rt chat_id message thread_id) = Inr body"
  shows "send_telegram_message rt bot_token chat_id message thread_id =
     (case read_reply rt (post_request (api_url bot_token) body) of
        Inl e \<Rightarrow>
          (fst (send_failed rt e),
           HttpPost (post_request (api_url bot_token) body) # snd (send_failed rt e))
      | Inr None \<Rightarrow>
          (case stdout_raises rt sent_ok_line of
             None \<Rightarrow> (Return True,
               [HttpPost (post_request (api_url bot_token) body), Stdout sent_ok_line])
           | Some e \<Rightarrow>
               (fst (send_failed rt e),
                HttpPost (post_request (api_url bot_token) body) # snd (send_failed rt e)))
      | Inr (Some d) \<Rightarrow>
          (case stderr_raises rt (api_error_line (fmt rt d)) of
             None \<Rightarrow> (Return False,
               [HttpPost (post_request (api_url bot_token) body),
                Stderr (api_error_line (fmt rt d))])
           | Some e \<Rightarrow>
               (fst (send_failed rt e),
                HttpPost (post_request (api_url bot_token) body) # snd (send_failed rt e))))"
  using assms
  by (simp add: send_telegram_message_def Let_def lift_exc_def bind_simps urlopen_def
      try_print_out_def try_print_err_def try_except_simps ret_def
      split: sum.splits option.splits)

lemma send_raises:
  assumes "urlencode rt (request_data rt chat_id message thread_id) = Inl e"
  shows "send_telegram_message rt bot_token chat_id message thread_id = (Raised e, [])"
  using assms
  by (simp add: send_telegram_message_def Let_def lift_exc_def bind_simps)

lemma http_calls_simps:
  "http_calls [] = 0" "http_calls (HttpPost r # t) = Suc (http_calls t)"
  "http_calls (Stdout s # t) = http_calls t" "http_calls (Stderr s # t) = http_calls t"
  by (simp_all add: http_calls_def)



lemma send_failed_not_exit: "fst (send_failed rt e) \<noteq> SysExit n"
  using send_failed_result [of rt e] by auto





lemma send_result:
  "(\<exists>b. fst (send_telegram_message rt bot_token chat_id message thread_id) = Return b)
   \<or> (\<exists>e. fst (send_telegram_message rt bot_token chat_id message thread_id) = Raised e)"
proof (cases "urlencode rt (request_data rt chat_id message thread_id)")
  case (Inl e)
  then show ?thesis by (simp add: send_raises)
next
  case (Inr body)
  have "\<And>e. (\<exists>b. fst (send_failed rt e) = Return b) \<or> (\<exists>e'. fst (send_failed rt e) = Raised e')"
    using send_failed_result by (metis fst_conv)
  then show ?thesis
    by (auto simp: send_unfold [OF Inr] split: sum.splits option.splits)
qed



lemma sample_reply:
  "urlopen_read sample_rt r = Inr ok_reply"
  "json_loads sample_rt ok_reply = Inr (JObj [(lit ''ok'', JBool True)])"
  "ok_field [(lit ''ok'', JBool True)]"
  "urlencode sample_rt d = Inr (lit ''form'')"
  "exc_text sample_rt e = lit ''error''"
  "stdout_raises sample_rt s = None" "stderr_raises sample_rt s = None"
  by (simp_all add: sample_eval dq_def lit_eval ok_field_def field_def)



text \<open>
  C9.  A thread identifier that is set and not empty adds the field
  \<open>message_thread_id\<close> to the form: the integer \<open>int(thread_id)\<close> when the
  string parses as an integer, the string itself otherwise.  Without an
  identifier (unset, or set to the empty string) the form has no such field.  The
  fields \<open>chat_id\<close>, \<open>text\<close> and \<open>parse_mode\<close> are always there, and the body
  of the request is the encoding of exactly this form.
\<close>

theorem thread_id_field:
  "(thread_id = Some t \<and> t \<noteq> [] \<and> py_int rt t = Some n \<longrightarrow>
      request_data rt chat_id message thread_id =
        [(''chat_id'', FStr chat_id), (''text'', FStr message),
         (''parse_mode'', FStr (lit ''HTML'')), (''message_thread_id'', FInt n)])
   \<and> (thread_id = Some t \<and> t \<noteq> [] \<and> py_int rt t = None \<longrightarrow>
      request_data rt chat_id message thread_id =
        [(''chat_id'', FStr chat_id), (''text'', FStr message),
         (''parse_mode'', FStr (lit ''HTML'')), (''message_thread_id'', FStr t)])
   \<and> (thread_id = None \<or> thread_id = Some [] \<longrightarrow>
      request_data rt chat_id message thread_id =
        [(''chat_id'', FStr chat_id), (''text'', FStr message),
         (''parse_mode'', FStr (lit ''HTML''))])
   \<and> (map_of (request_data rt chat_id message thread_id) ''message_thread_id'' =
        (case thread_id of
           None \<Rightarrow> None
         | Some t' \<Rightarrow>
             if t' = [] then None
             else (case py_int rt t' of Some n' \<Rightarrow> Some (FInt n') | None \<Rightarrow> Some (FStr t'))))
   \<and> (urlencode rt (request_data rt chat_id message thread_id) = Inr body \<longrightarrow>
        hd (snd (send_telegram_message rt bot_token chat_id message thread_id)) =
          HttpPost (post_request (api_url bot_token) body)
        \<and> req_data (post_request (api_url bot_token) body) = body)"
proof -
  have a: "thread_id = Some t \<and> t \<noteq> [] \<and> py_int rt t = Some n \<longrightarrow>
      request_data rt chat_id message thread_id =
        [(''chat_id'', FStr chat_id), (''text'', FStr message),
         (''parse_mode'', FStr (lit ''HTML'')), (''message_thread_id'', FInt n)]"
    by (simp add: request_data_def)
  have b: "thread_id = Some t \<and> t \<noteq> [] \<and> py_int rt t = None \<longrightarrow>
      request_data rt chat_id message thread_id =
        [(''chat_id'', FStr chat_id), (''text'', FStr message),
         (''parse_mode'', FStr (lit ''HTML'')), (''message_thread_id'', FStr t)]"
    by (simp add: request_data_def)
  have c: "thread_id = None \<or> thread_id = Some [] \<longrightarrow>
      request_data rt chat_id message thread_id =
        [(''chat_id'', FStr chat_id), (''text'', FStr message),
         (''parse_mode'', FStr (lit ''HTML''))]"
    by (auto simp: request_data_def)
  have d: "map_of (request_data rt chat_id message thread_id) ''message_thread_id'' =
        (case thread_id of
           None \<Rightarrow> None
         | Some t' \<Rightarrow>
             if t' = [] then None
             else (case py_int rt t' of Some n' \<Rightarrow> Some (FInt n') | None \<Rightarrow> Some (FStr t')))"
    by (simp add: request_data_def split: option.splits)
  have e: "urlencode rt (request_data rt chat_id message thread_id) = Inr body \<longrightarrow>
        hd (snd (send_telegram_message rt bot_token chat_id message thread_id)) =
          HttpPost (post_request (api_url bot_token) body)
        \<and> req_data (post_request (api_url bot_token) body) = body"
    by (simp add: send_unfold post_request_def split: sum.splits option.splits)
  show ?thesis
    by (intro conjI a b c d e)
qed

theorem thread_id_field_witness:
  "py_int sample_rt (lit ''42'') = Some 42 \<and> lit ''42'' \<noteq> []
   \<and> request_data sample_rt (lit ''1'') (lit ''hi'') (Some (lit ''42'')) =
        [(''chat_id'', FStr (lit ''1'')), (''text'', FStr (lit ''hi'')),
         (''parse_mode'', FStr (lit ''HTML'')), (''message_thread_id'', FInt 42)]
   \<and> py_int sample_rt (lit ''general'') = None \<and> lit ''general'' \<noteq> []
   \<and> request_data sample_rt (lit ''1'') (lit ''hi'') (Some (lit ''general'')) =
        [(''chat_id'', FStr (lit ''1'')), (''text'', FStr (lit ''hi'')),
         (''parse_mode'', FStr (lit ''HTML'')), (''message_thread_id'', FStr (lit ''general''))]
   \<and> request_data sample_rt (lit ''1'') (lit ''hi'') None =
        [(''chat_id'', FStr (lit ''1'')), (''text'', FStr (lit ''hi'')),
         (''parse_mode'', FStr (lit ''HTML''))]
   \<and> urlencode sample_rt (request_data sample_rt (lit ''1'') (lit ''hi'') (Some (lit ''42''))) =
        Inr (lit ''form'')
   \<and> hd (snd (send_telegram_message sample_rt (lit ''T'') (lit ''1'') (lit ''hi'')
              (Some (lit ''42'')))) =
        HttpPost (post_request (api_url (lit ''T'')) (lit ''form''))"
proof -
  have i1: "py_int sample_rt (lit ''42'') = Some 42" "lit ''42'' \<noteq> []"
    by (simp_all add: sample_rt_def lit_eval)
  have i2: "py_int sample_rt (lit ''general'') = None" "lit ''general'' \<noteq> []"
    by (simp_all add: sample_rt_def lit_eval)
  have enc: "urlencode sample_rt
      (request_data sample_rt (lit ''1'') (lit ''hi'') (Some (lit ''42''))) = Inr (lit ''form'')"
    by (simp add: sample_rt_def)
  note t1 = thread_id_field [where rt = sample_rt and thread_id = "Some (lit ''42'')"
      and t = "lit ''42''" and n = 42 and chat_id = "lit ''1''" and message = "lit ''hi''"
      and body = "lit ''form''" and bot_token = "lit ''T''"]
  note t2 = thread_id_field [where rt = sample_rt and thread_id = "Some (lit ''general'')"
      and t = "lit ''general''" and chat_id = "lit ''1''" and message = "lit ''hi''"]
  note t3 = thread_id_field [where rt = sample_rt and thread_id = None
      and chat_id = "lit ''1''" and message = "lit ''hi''"]
  show ?thesis
    using t1 t2 t3 i1 i2 enc by simp
qed

subsection \<open>Environment reader and entry point\<close>

lemma get_env_var_optional: "get_env_var env name False = ret (env name)"
  by (simp add: get_env_var_def)

lemma opt_truthy_present: "opt_truthy (env name) = present env name"
  by (cases "env name") (simp_all add: present_def)

lemma get_env_var_required:
  "get_env_var env name True =
     (if present env name then ret (env name) else (SysExit 1, [Stderr (missing_diag name)]))"
  by (simp add: get_env_var_def opt_truthy_present print_err_def sys_exit_def bind_simps)

lemma get_required_if:
  "get_required env name =
     (if present env name then ret (env_value env name)
      else (SysExit 1, [Stderr (missing_diag name)]))"
  by (cases "env name")
    (simp_all add: get_required_def get_env_var_required bind_simps present_def env_value_def)

lemma bind_get_required:
  "bind (get_required env name) f =
     (if present env name then f (env_value env name)
      else (SysExit 1, [Stderr (missing_diag name)]))"
  by (simp add: get_required_if bind_simps)

lemma get_or_eq: "get_or env name dflt = ret (env_value_or env name dflt)"
  by (cases "env name")
    (simp_all add: get_or_def get_env_var_optional bind_simps env_value_or_def present_def
      env_value_def)

lemma hint_or_present_matches:
  "hint_or_present env (env ''EVENT_TYPE'') (hint k) (presence_var k) = ret (matches env k)"
  by (simp add: hint_or_present_def matches_def get_env_var_optional bind_simps
      opt_truthy_present)

lemmas hint_or_present_kinds =
  hint_or_present_matches [of _ PullRequest, simplified]
  hint_or_present_matches [of _ Issue, simplified]
  hint_or_present_matches [of _ Push, simplified]
  hint_or_present_matches [of _ WorkflowRun, simplified]

lemma build_message_classify:
  "build_message rt env repo actor (env ''EVENT_TYPE'') =
     (case classify env of
        Some k \<Rightarrow> run_branch rt env repo actor k
      | None \<Rightarrow> (SysExit 1, [Stderr unknown_event_line]))"
  by (simp add: build_message_def hint_or_present_kinds bind_simps classify_def print_err_def
      sys_exit_def)

lemma classify_precedence:
  "(classify env = Some PullRequest \<longleftrightarrow> matches env PullRequest)"
  "(classify env = Some Issue \<longleftrightarrow> \<not> matches env PullRequest \<and> matches env Issue)"
  "(classify env = Some Push \<longleftrightarrow>
      \<not> matches env PullRequest \<and> \<not> matches env Issue \<and> matches env Push)"
  "(classify env = Some WorkflowRun \<longleftrightarrow>
      \<not> matches env PullRequest \<and> \<not> matches env Issue \<and> \<not> matches env Push
      \<and> matches env WorkflowRun)"
  "(classify env = None \<longleftrightarrow>
      \<not> matches env PullRequest \<and> \<not> matches env Issue \<and> \<not> matches env Push
      \<and> \<not> matches env WorkflowRun)"
  by (simp_all add: classify_def)

lemma run_branch_complete:
  assumes "list_all (present env) (required_vars k)"
  shows "run_branch rt env repo actor k = lift_exc (branch_message rt env repo actor k)"
  using assms
  by (cases k)
    (simp_all add: pr_branch_def issue_branch_def push_branch_def workflow_branch_def
      bind_get_required get_env_var_optional get_or_eq bind_simps lift_exc_def ret_def)

lemma run_branch_find:
  "run_branch rt env repo actor k =
     (case find (\<lambda>n. \<not> present env n) (required_vars k) of
        Some n \<Rightarrow> (SysExit 1, [Stderr (missing_diag n)])
      | None \<Rightarrow> lift_exc (branch_message rt env repo actor k))"
  by (cases k)
    (simp_all add: pr_branch_def issue_branch_def push_branch_def workflow_branch_def
      bind_get_required get_env_var_optional get_or_eq bind_simps lift_exc_def ret_def)

lemma main_run:
  "main rt env =
     (case find (\<lambda>n. \<not> present env n) common_vars of
        Some n \<Rightarrow> (SysExit 1, [Stderr (missing_diag n)])
      | None \<Rightarrow>
          (case classify env of
             None \<Rightarrow> (SysExit 1, [Stderr unknown_event_line])
           | Some k \<Rightarrow>
               (case find (\<lambda>n. \<not> present env n) (required_vars k) of
                  Some n \<Rightarrow> (SysExit 1, [Stderr (missing_diag n)])
                | None \<Rightarrow>
                    bind (lift_exc (branch_message rt env (env_value env ''GITHUB_REPOSITORY'')
                                      (env_value env ''GITHUB_ACTOR'') k))
                      (\<lambda>message.
                         bind (send_telegram_message rt (env_value env ''TELEGRAM_BOT_TOKEN'')
                                 (env_value env ''TELEGRAM_CHAT_ID'') message
                                 (env ''TELEGRAM_THREAD_ID''))
                           (\<lambda>success. if \<not> success then sys_exit 1 else ret ())))))"
  by (simp add: main_def common_vars_def bind_get_required get_env_var_optional bind_simps
      build_message_classify run_branch_find split: option.splits)

lemma find_missing_None:
  "find (\<lambda>n. \<not> present env n) ns = None \<longleftrightarrow> list_all (present env) ns"
  by (induction ns) simp_all

lemma find_missing_Some:
  "(\<exists>n. find (\<lambda>n. \<not> present env n) ns = Some n) \<longleftrightarrow> list_ex (\<lambda>n. \<not> present env n) ns"
  by (induction ns) simp_all

lemma finish_exit:
  "exit_code (fst (bind (send_telegram_message rt bot_token chat_id message thread_id)
      (\<lambda>success. if \<not> success then sys_exit 1 else ret ()))) =
   (if fst (send_telegram_message rt bot_token chat_id message thread_id) = Return True
    then 0 else 1)"
  using send_result [of rt bot_token chat_id message thread_id]
  by (cases "send_telegram_message rt bot_token chat_id message thread_id")
    (auto simp: bind_simps sys_exit_def ret_def split: if_splits)

lemma main_common:
  assumes "list_all (present env) common_vars"
  shows "main rt env =
     bind (build_message rt env (env_value env ''GITHUB_REPOSITORY'')
             (env_value env ''GITHUB_ACTOR'') (env ''EVENT_TYPE''))
       (\<lambda>message.
          bind (send_telegram_message rt (env_value env ''TELEGRAM_BOT_TOKEN'')
                  (env_value env ''TELEGRAM_CHAT_ID'') message (env ''TELEGRAM_THREAD_ID''))
            (\<lambda>success. if \<not> success then sys_exit 1 else ret ()))"
  using assms
  by (simp add: main_def common_vars_def bind_get_required get_env_var_optional bind_simps)

lemma main_unknown:
  assumes "list_all (present env) common_vars" "classify env = None"
  shows "main rt env = (SysExit 1, [Stderr unknown_event_line])"
  using assms by (simp add: main_run find_missing_None [symmetric])

lemma main_missing:
  assumes "missing_config env"
  shows "\<exists>n. main rt env = (SysExit 1, [Stderr (missing_diag n)])"
proof (cases "find (\<lambda>n. \<not> present env n) common_vars")
  case (Some n)
  then have "main rt env = (SysExit 1, [Stderr (missing_diag n)])"
    by (simp add: main_run)
  then show ?thesis by blast
next
  case None
  then have "\<not> list_ex (\<lambda>n. \<not> present env n) common_vars"
    using find_missing_Some [of env common_vars] by simp
  with assms obtain k where k: "classify env = Some k"
    and "list_ex (\<lambda>n. \<not> present env n) (required_vars k)"
    by (auto simp: missing_config_def split: option.splits)
  then obtain n where "find (\<lambda>n. \<not> present env n) (required_vars k) = Some n"
    using find_missing_Some [of env "required_vars k"] by blast
  with None k have "main rt env = (SysExit 1, [Stderr (missing_diag n)])"
    by (simp add: main_run)
  then show ?thesis by blast
qed

lemma main_complete:
  assumes "\<not> missing_config env" "classify env = Some k"
  shows "main rt env =
     bind (lift_exc (branch_message rt env (env_value env ''GITHUB_REPOSITORY'')
                       (env_value env ''GITHUB_ACTOR'') k))
       (\<lambda>message.
          bind (send_telegram_message rt (env_value env ''TELEGRAM_BOT_TOKEN'')
                  (env_value env ''TELEGRAM_CHAT_ID'') message (env ''TELEGRAM_THREAD_ID''))
            (\<lambda>success. if \<not> success then sys_exit 1 else ret ()))"
proof -
  from assms have "find (\<lambda>n. \<not> present env n) common_vars = None"
    and "find (\<lambda>n. \<not> present env n) (required_vars k) = None"
    using find_missing_Some [of env common_vars] find_missing_Some [of env "required_vars k"]
    by (auto simp: missing_config_def)
  with assms(2) show ?thesis by (simp add: main_run)
qed

lemma main_exit_zero: "exit_code (fst (main rt env)) = 0 \<longleftrightarrow> delivered rt env"
proof (cases "missing_config env")
  case True
  from main_missing [OF True, of rt] show ?thesis
    using True by (auto simp: delivered_def)
next
  case False
  show ?thesis
  proof (cases "classify env")
    case None
    from False have "list_all (present env) common_vars"
      by (auto simp: missing_config_def list_all_iff list_ex_iff)
    from main_unknown [OF this None, of rt] show ?thesis
      using None by (simp add: delivered_def)
  next
    case (Some k)
    show ?thesis
    proof (cases "branch_message rt env (env_value env ''GITHUB_REPOSITORY'')
                       (env_value env ''GITHUB_ACTOR'') k")
      case (Inl e)
      then show ?thesis
        using False Some by (simp add: main_complete delivered_def lift_exc_def bind_simps)
    next
      case (Inr m)
      then show ?thesis
        using False Some
        by (simp add: main_complete delivered_def lift_exc_def bind_simps finish_exit)
    qed
  qed
qed

lemma main_exit_range: "exit_code (fst (main rt env)) = 0 \<or> exit_code (fst (main rt env)) = 1"
proof (cases "missing_config env")
  case True
  from main_missing [OF True, of rt] show ?thesis by auto
next
  case False
  show ?thesis
  proof (cases "classify env")
    case None
    from False have "list_all (present env) common_vars"
      by (auto simp: missing_config_def list_all_iff list_ex_iff)
    from main_unknown [OF this None, of rt] show ?thesis by simp
  next
    case (Some k)
    show ?thesis
    proof (cases "branch_message rt env (env_value env ''GITHUB_REPOSITORY'')
                       (env_value env ''GITHUB_ACTOR'') k")
      case (Inl e)
      then show ?thesis
        using False Some by (simp add: main_complete lift_exc_def bind_simps)
    next
      case (Inr m)
      then show ?thesis
        using False Some
        by (simp add: main_complete lift_exc_def bind_simps finish_exit)
    qed
  qed
qed

lemma main_unknown_any:
  assumes "classify env = None"
  shows "exit_code (fst (main rt env)) = 1 \<and> http_calls (snd (main rt env)) = 0"
  using assms by (simp add: main_run http_calls_simps split: option.splits)

lemma matches_iff:
  "matches env k \<longleftrightarrow>
     env ''EVENT_TYPE'' = Some (lit (hint k)) \<or> (\<exists>s. env (presence_var k) = Some s \<and> s \<noteq> [])"
  by (cases "env (presence_var k)") (simp_all add: matches_def present_def)

text \<open>
  C2.  The \<open>if\<close>/\<open>elif\<close> chain of \<open>main\<close> runs the branch of the first kind, in
  the order pull request, issue, push, workflow run, whose hint equals
  \<open>EVENT_TYPE\<close> or whose variable (\<open>PR_NUMBER\<close>, \<open>ISSUE_NUMBER\<close>, \<open>PUSH_BRANCH\<close>,
  \<open>WORKFLOW_NAME\<close>) is set to a non-empty value, and no other branch; a branch
  whose required variables are there returns the output of its own formatter on
  its own variables.  When no kind matches the chain prints the unknown-event
  line and exits with status 1, and the run makes no request.  \<open>main\<close> reaches
  the chain once the four common variables have been read.
\<close>

theorem event_precedence:
  "build_message rt env repo actor (env ''EVENT_TYPE'') =
     (case classify env of
        Some k \<Rightarrow> run_branch rt env repo actor k
      | None \<Rightarrow> (SysExit 1, [Stderr unknown_event_line]))
   \<and> (classify env = Some PullRequest \<longleftrightarrow> matches env PullRequest)
   \<and> (classify env = Some Issue \<longleftrightarrow> \<not> matches env PullRequest \<and> matches env Issue)
   \<and> (classify env = Some Push \<longleftrightarrow>
        \<not> matches env PullRequest \<and> \<not> matches env Issue \<and> matches env Push)
   \<and> (classify env = Some WorkflowRun \<longleftrightarrow>
        \<not> matches env PullRequest \<and> \<not> matches env Issue \<and> \<not> matches env Push
        \<and> matches env WorkflowRun)
   \<and> (classify env = None \<longleftrightarrow>
        \<not> matches env PullRequest \<and> \<not> matches env Issue \<and> \<not> matches env Push
        \<and> \<not> matches env WorkflowRun)
   \<and> (matches env k \<longleftrightarrow>
        env ''EVENT_TYPE'' = Some (lit (hint k))
        \<or> (\<exists>s. env (presence_var k) = Some s \<and> s \<noteq> []))
   \<and> (list_all (present env) (required_vars k) \<longrightarrow>
        run_branch rt env repo actor k = lift_exc (branch_message rt env repo actor k))
   \<and> (classify env = None \<longrightarrow>
        exit_code (fst (main rt env)) = 1 \<and> http_calls (snd (main rt env)) = 0)
   \<and> (list_all (present env) common_vars \<and> classify env = None \<longrightarrow>
        main rt env = (SysExit 1, [Stderr unknown_event_line]))
   \<and> (list_all (present env) common_vars \<longrightarrow>
        main rt env =
          bind (build_message rt env (env_value env ''GITHUB_REPOSITORY'')
                  (env_value env ''GITHUB_ACTOR'') (env ''EVENT_TYPE''))
            (\<lambda>message.
               bind (send_telegram_message rt (env_value env ''TELEGRAM_BOT_TOKEN'')
                       (env_value env ''TELEGRAM_CHAT_ID'') message
                       (env ''TELEGRAM_THREAD_ID''))
                 (\<lambda>success. if \<not> success then sys_exit 1 else ret ())))"
proof -
  have branch: "list_all (present env) (required_vars k) \<longrightarrow>
        run_branch rt env repo actor k = lift_exc (branch_message rt env repo actor k)"
    using run_branch_complete by blast
  have unknown: "classify env = None \<longrightarrow>
        exit_code (fst (main rt env)) = 1 \<and> http_calls (snd (main rt env)) = 0"
    using main_unknown_any by blast
  have unknown': "list_all (present env) common_vars \<and> classify env = None \<longrightarrow>
        main rt env = (SysExit 1, [Stderr unknown_event_line])"
    using main_unknown by blast
  have common: "list_all (present env) common_vars \<longrightarrow>
        main rt env =
          bind (build_message rt env (env_value env ''GITHUB_REPOSITORY'')
                  (env_value env ''GITHUB_ACTOR'') (env ''EVENT_TYPE''))
            (\<lambda>message.
               bind (send_telegram_message rt (env_value env ''TELEGRAM_BOT_TOKEN'')
                       (env_value env ''TELEGRAM_CHAT_ID'') message
                       (env ''TELEGRAM_THREAD_ID''))
                 (\<lambda>success. if \<not> success then sys_exit 1 else ret ()))"
    using main_common by blast
  show ?thesis
    by (intro conjI build_message_classify classify_precedence matches_iff branch unknown
        unknown' common)
qed

lemma issue_env_facts:
  "classify issue_env = Some Issue" "list_all (present issue_env) (required_vars Issue)"
  "present issue_env ''PUSH_BRANCH''" "issue_env ''EVENT_TYPE'' = None"
  "list_all (present issue_env) common_vars"
  by (simp_all add: classify_def matches_def present_def issue_env_def common_vars_def lit_eval)

lemma base_env_facts:
  "classify base_env = None" "list_all (present base_env) common_vars"
  by (simp_all add: classify_def matches_def present_def base_env_def common_vars_def lit_eval)

theorem event_precedence_witness:
  "classify issue_env = Some Issue \<and> present issue_env ''PUSH_BRANCH''
   \<and> list_all (present issue_env) (required_vars Issue)
   \<and> build_message sample_rt issue_env (lit ''o/r'') (lit ''bob'') None =
       (Return (format_issue_message (lit ''o/r'') (lit ''bob'') (lit ''7'') (lit ''a<b'')
                  (lit ''https://x/7'') (lit ''opened'')), [])
   \<and> classify base_env = None \<and> list_all (present base_env) common_vars
   \<and> main sample_rt base_env = (SysExit 1, [Stderr unknown_event_line])"
proof -
  note t1 = event_precedence [where rt = sample_rt and env = issue_env and k = Issue
      and repo = "lit ''o/r''" and actor = "lit ''bob''"]
  note t2 = event_precedence [where rt = sample_rt and env = base_env]
  have v: "env_value issue_env ''ISSUE_NUMBER'' = lit ''7''"
    "env_value issue_env ''ISSUE_TITLE'' = lit ''a<b''"
    "env_value issue_env ''ISSUE_URL'' = lit ''https://x/7''"
    "env_value issue_env ''ISSUE_ACTION'' = lit ''opened''"
    by (simp_all add: env_value_def issue_env_def)
  from t1 issue_env_facts
  have "build_message sample_rt issue_env (lit ''o/r'') (lit ''bob'') None =
      lift_exc (branch_message sample_rt issue_env (lit ''o/r'') (lit ''bob'') Issue)"
    by simp
  then have b: "build_message sample_rt issue_env (lit ''o/r'') (lit ''bob'') None =
       (Return (format_issue_message (lit ''o/r'') (lit ''bob'') (lit ''7'') (lit ''a<b'')
                  (lit ''https://x/7'') (lit ''opened'')), [])"
    by (simp add: lift_exc_def v)
  from t2 base_env_facts
  have m: "main sample_rt base_env = (SysExit 1, [Stderr unknown_event_line])"
    by blast
  show ?thesis
    using issue_env_facts base_env_facts b m by simp
qed

lemma main_delivery_failed:
  assumes "\<not> missing_config env" "classify env = Some k"
    and "branch_message rt env (env_value env ''GITHUB_REPOSITORY'')
           (env_value env ''GITHUB_ACTOR'') k = Inr m"
    and "fst (send_telegram_message rt (env_value env ''TELEGRAM_BOT_TOKEN'')
           (env_value env ''TELEGRAM_CHAT_ID'') m (env ''TELEGRAM_THREAD_ID'')) = Return False"
  shows "fst (main rt env) = SysExit 1"
  using assms(3,4)
  by (cases "send_telegram_message rt (env_value env ''TELEGRAM_BOT_TOKEN'')
           (env_value env ''TELEGRAM_CHAT_ID'') m (env ''TELEGRAM_THREAD_ID'')")
    (simp add: main_complete [OF assms(1,2)] lift_exc_def bind_simps sys_exit_def)

lemma main_no_request:
  assumes "missing_config env \<or> classify env = None"
  shows "http_calls (snd (main rt env)) = 0"
proof (cases "missing_config env")
  case True
  from main_missing [OF True, of rt] show ?thesis
    by (auto simp: http_calls_simps)
next
  case False
  with assms have "classify env = None" by simp
  then show ?thesis by (simp add: main_unknown_any)
qed

lemma not_missing_common:
  "\<not> missing_config env \<Longrightarrow> list_all (present env) common_vars"
  by (auto simp: missing_config_def list_all_iff list_ex_iff)

text \<open>
  C8.  The process ends with status 0 exactly when delivery succeeds, and with
  status 1 otherwise.  When a required variable is missing (one of the four
  common ones, or one of those the selected kind needs) the run is the
  missing-variable line followed by \<open>sys.exit(1)\<close>; when no kind matches it is
  the unknown-event line followed by \<open>sys.exit(1)\<close>; when the notifier returns
  \<open>False\<close> the run ends with \<open>sys.exit(1)\<close>.  In the first two cases no request
  is made.
\<close>

theorem exit_codes:
  "(exit_code (fst (main rt env)) = 0 \<longleftrightarrow> delivered rt env)
   \<and> (exit_code (fst (main rt env)) = 0 \<or> exit_code (fst (main rt env)) = 1)
   \<and> (missing_config env \<longrightarrow>
        (\<exists>n. main rt env = (SysExit 1, [Stderr (missing_diag n)])))
   \<and> (\<not> missing_config env \<and> classify env = None \<longrightarrow>
        main rt env = (SysExit 1, [Stderr unknown_event_line]))
   \<and> (\<not> missing_config env \<and> classify env = Some k
        \<and> branch_message rt env (env_value env ''GITHUB_REPOSITORY'')
             (env_value env ''GITHUB_ACTOR'') k = Inr m
        \<and> fst (send_telegram_message rt (env_value env ''TELEGRAM_BOT_TOKEN'')
                 (env_value env ''TELEGRAM_CHAT_ID'') m (env ''TELEGRAM_THREAD_ID'')) =
             Return False \<longrightarrow>
        fst (main rt env) = SysExit 1)
   \<and> (missing_config env \<or> classify env = None \<longrightarrow> http_calls (snd (main rt env)) = 0)"
proof -
  have a: "missing_config env \<longrightarrow>
        (\<exists>n. main rt env = (SysExit 1, [Stderr (missing_diag n)]))"
    using main_missing by blast
  have b: "\<not> missing_config env \<and> classify env = None \<longrightarrow>
        main rt env = (SysExit 1, [Stderr unknown_event_line])"
    using main_unknown not_missing_common by blast
  have c: "\<not> missing_config env \<and> classify env = Some k
        \<and> branch_message rt env (env_value env ''GITHUB_REPOSITORY'')
             (env_value env ''GITHUB_ACTOR'') k = Inr m
        \<and> fst (send_telegram_message rt (env_value env ''TELEGRAM_BOT_TOKEN'')
                 (env_value env ''TELEGRAM_CHAT_ID'') m (env ''TELEGRAM_THREAD_ID'')) =
             Return False \<longrightarrow>
        fst (main rt env) = SysExit 1"
    using main_delivery_failed by blast
  have d: "missing_config env \<or> classify env = None \<longrightarrow> http_calls (snd (main rt env)) = 0"
    using main_no_request by blast
  show ?thesis
    by (intro conjI main_exit_zero main_exit_range a b c d)
qed

lemma issue_env_complete: "\<not> missing_config issue_env"
  using issue_env_facts(2,5)
  by (simp add: missing_config_def issue_env_facts(1) list_ex_iff list_all_iff)

lemma issue_env_message:
  "branch_message sample_rt issue_env (lit ''o/r'') (lit ''bob'') Issue =
     Inr (format_issue_message (lit ''o/r'') (lit ''bob'') (lit ''7'') (lit ''a<b'')
            (lit ''https://x/7'') (lit ''opened''))"
  by (simp add: env_value_def issue_env_def)

lemma issue_env_values:
  "env_value issue_env ''GITHUB_REPOSITORY'' = lit ''o/r''"
  "env_value issue_env ''GITHUB_ACTOR'' = lit ''bob''"
  "env_value issue_env ''TELEGRAM_BOT_TOKEN'' = lit ''T''"
  "env_value issue_env ''TELEGRAM_CHAT_ID'' = lit ''1''"
  "issue_env ''TELEGRAM_THREAD_ID'' = None"
  by (simp_all add: env_value_def issue_env_def)

lemma sample_send:
  "send_telegram_message sample_rt (lit ''T'') (lit ''1'') message None =
     (Return True, [HttpPost (post_request (api_url (lit ''T'')) (lit ''form'')),
                    Stdout sent_ok_line])"
proof -
  have enc: "urlencode sample_rt (request_data sample_rt (lit ''1'') message None) =
      Inr (lit ''form'')"
    by (simp add: sample_rt_def)
  have rd: "urlopen_read sample_rt (post_request (api_url (lit ''T'')) (lit ''form'')) =
      Inr ok_reply"
    by (simp add: sample_rt_def)
  have js: "json_loads sample_rt ok_reply = Inr (JObj [(lit ''ok'', JBool True)])"
    by (simp add: sample_eval dq_def lit_eval)
  show ?thesis
    by (simp add: send_unfold [OF enc] read_reply_object [OF rd js] sample_reply)
qed

lemma issue_env_delivered: "delivered sample_rt issue_env"
  by (simp add: delivered_def issue_env_complete issue_env_facts(1) issue_env_values
      issue_env_message sample_send)

lemma base_env_incomplete:
  "missing_config (base_env(''GITHUB_ACTOR'' := None))"
  by (simp add: missing_config_def common_vars_def present_def base_env_def)

theorem exit_codes_witness:
  "delivered sample_rt issue_env \<and> exit_code (fst (main sample_rt issue_env)) = 0
   \<and> \<not> missing_config base_env \<and> classify base_env = None
   \<and> main sample_rt base_env = (SysExit 1, [Stderr unknown_event_line])
   \<and> missing_config (base_env(''GITHUB_ACTOR'' := None))
   \<and> exit_code (fst (main sample_rt (base_env(''GITHUB_ACTOR'' := None)))) = 1
   \<and> http_calls (snd (main sample_rt (base_env(''GITHUB_ACTOR'' := None)))) = 0"
proof -
  have nb: "\<not> missing_config base_env"
    using base_env_facts(2)
    by (simp add: missing_config_def base_env_facts(1) list_ex_iff list_all_iff)
  note t1 = exit_codes [where rt = sample_rt and env = issue_env]
  note t2 = exit_codes [where rt = sample_rt and env = base_env]
  note t3 = exit_codes [where rt = sample_rt and env = "base_env(''GITHUB_ACTOR'' := None)"]
  from t1 issue_env_delivered have z: "exit_code (fst (main sample_rt issue_env)) = 0"
    by blast
  from t2 nb base_env_facts(1)
  have u: "main sample_rt base_env = (SysExit 1, [Stderr unknown_event_line])"
    by blast
  from t3 base_env_incomplete
  have "\<exists>n. main sample_rt (base_env(''GITHUB_ACTOR'' := None)) =
      (SysExit 1, [Stderr (missing_diag n)])"
    by blast
  then have e: "exit_code (fst (main sample_rt (base_env(''GITHUB_ACTOR'' := None)))) = 1"
    by auto
  from t3 base_env_incomplete
  have h: "http_calls (snd (main sample_rt (base_env(''GITHUB_ACTOR'' := None)))) = 0"
    by blast
  show ?thesis
    using issue_env_delivered z nb base_env_facts(1) u base_env_incomplete e h by simp
qed

subsection \<open>Empty values\<close>

lemma present_unset_empty: "present (unset_empty env) name = present env name"
  by (cases "env name") (simp_all add: present_def unset_empty_def)

lemma env_value_unset_empty: "env_value (unset_empty env) name = env_value env name"
  by (cases "env name") (simp_all add: env_value_def unset_empty_def)

lemma env_value_or_unset_empty:
  "env_value_or (unset_empty env) name dflt = env_value_or env name dflt"
  by (simp add: env_value_or_def present_unset_empty env_value_unset_empty)

lemma unset_empty_eq_nonempty:
  "s \<noteq> [] \<Longrightarrow> unset_empty env name = Some s \<longleftrightarrow> env name = Some s"
  by (auto simp: unset_empty_def)

lemma lit_hint_nonempty: "lit (hint k) \<noteq> []"
  by (cases k) (simp_all add: lit_eval)

lemma matches_unset_empty: "matches (unset_empty env) k = matches env k"
  by (simp add: matches_def present_unset_empty unset_empty_eq_nonempty lit_hint_nonempty)

lemma classify_unset_empty: "classify (unset_empty env) = classify env"
  by (simp add: classify_def matches_unset_empty)

lemma format_push_unset_empty:
  "format_push_message rt repo actor branch (unset_empty env name) =
     format_push_message rt repo actor branch (env name)"
  by (simp add: unset_empty_def format_push_absent)

lemma branch_message_unset_empty:
  "branch_message rt (unset_empty env) repo actor k = branch_message rt env repo actor k"
  by (cases k)
    (simp_all add: env_value_unset_empty env_value_or_unset_empty format_push_unset_empty
      unset_empty_eq_nonempty lit_eval)

lemma request_data_unset_empty:
  "request_data rt chat_id message (unset_empty env name) =
     request_data rt chat_id message (env name)"
  by (simp add: unset_empty_def request_data_def)

lemma send_unset_empty:
  "send_telegram_message rt bot_token chat_id message (unset_empty env name) =
     send_telegram_message rt bot_token chat_id message (env name)"
  by (simp add: send_telegram_message_def request_data_unset_empty)

lemma main_unset_empty: "main rt (unset_empty env) = main rt env"
  by (simp add: main_run present_unset_empty classify_unset_empty env_value_unset_empty
      branch_message_unset_empty send_unset_empty cong: option.case_cong)

lemma run_branch_unset_empty:
  "run_branch rt (unset_empty env) repo actor k = run_branch rt env repo actor k"
  by (simp add: run_branch_find present_unset_empty branch_message_unset_empty
      cong: option.case_cong)

lemma build_message_unset_empty:
  "build_message rt (unset_empty env) repo actor (unset_empty env ''EVENT_TYPE'') =
     build_message rt env repo actor (env ''EVENT_TYPE'')"
  by (simp add: build_message_classify classify_unset_empty run_branch_unset_empty
      cong: option.case_cong)

lemma unset_empty_upd:
  "unset_empty (env(name \<mapsto> [])) = unset_empty (env(name := None))"
  by (rule ext) (simp add: unset_empty_def)

lemma matches_empty_var:
  "matches (env(presence_var k \<mapsto> [])) k \<longleftrightarrow> env ''EVENT_TYPE'' = Some (lit (hint k))"
  by (cases k) (simp_all add: matches_def present_def)

lemma matches_empty_hint:
  "matches (env(''EVENT_TYPE'' \<mapsto> [])) k \<longleftrightarrow> present env (presence_var k)"
  by (cases k) (simp_all add: matches_def present_def lit_eval)

text \<open>
  C10.  A required read of a variable set to the empty string ends the process
  with status 1 and the missing-variable line, as a read of an unset variable
  does.  Setting any variable to the empty string gives the same run of \<open>main\<close>,
  the same selected kind and the same outcome of the \<open>if\<close>/\<open>elif\<close> chain as
  leaving it unset; in particular an event variable set to the empty string
  selects its branch only through the hint, and an empty \<open>EVENT_TYPE\<close> selects a
  branch only through the event variable.
\<close>

theorem empty_counts_as_absent:
  "(env name = Some [] \<or> env name = None \<longrightarrow>
      get_env_var env name True = (SysExit 1, [Stderr (missing_diag name)])
      \<and> exit_code (fst (get_env_var env name True)) = 1)
   \<and> get_env_var (env(name \<mapsto> [])) name True = get_env_var (env(name := None)) name True
   \<and> main rt (env(name \<mapsto> [])) = main rt (env(name := None))
   \<and> classify (env(name \<mapsto> [])) = classify (env(name := None))
   \<and> build_message rt (env(name \<mapsto> [])) repo actor ((env(name \<mapsto> [])) ''EVENT_TYPE'') =
       build_message rt (env(name := None)) repo actor ((env(name := None)) ''EVENT_TYPE'')
   \<and> (matches (env(presence_var k \<mapsto> [])) k \<longleftrightarrow> env ''EVENT_TYPE'' = Some (lit (hint k)))
   \<and> (matches (env(''EVENT_TYPE'' \<mapsto> [])) k \<longleftrightarrow> present env (presence_var k))"
proof -
  have a: "env name = Some [] \<or> env name = None \<longrightarrow>
      get_env_var env name True = (SysExit 1, [Stderr (missing_diag name)])
      \<and> exit_code (fst (get_env_var env name True)) = 1"
    by (auto simp: get_env_var_required present_def)
  have b: "get_env_var (env(name \<mapsto> [])) name True =
      get_env_var (env(name := None)) name True"
    by (simp add: get_env_var_required present_def)
  have c: "main rt (env(name \<mapsto> [])) = main rt (env(name := None))"
    using main_unset_empty [of rt "env(name \<mapsto> [])"]
      main_unset_empty [of rt "env(name := None)"]
    by (simp add: unset_empty_upd)
  have d: "classify (env(name \<mapsto> [])) = classify (env(name := None))"
    using classify_unset_empty [of "env(name \<mapsto> [])"]
      classify_unset_empty [of "env(name := None)"]
    by (simp add: unset_empty_upd)
  have e: "build_message rt (env(name \<mapsto> [])) repo actor ((env(name \<mapsto> [])) ''EVENT_TYPE'') =
       build_message rt (env(name := None)) repo actor ((env(name := None)) ''EVENT_TYPE'')"
    using build_message_unset_empty [of rt "env(name \<mapsto> [])" repo actor]
      build_message_unset_empty [of rt "env(name := None)" repo actor]
    by (simp only: unset_empty_upd)
  show ?thesis
    by (intro conjI a b c d e matches_empty_var matches_empty_hint)
qed

theorem empty_counts_as_absent_witness:
  "(base_env(''GITHUB_ACTOR'' \<mapsto> [])) ''GITHUB_ACTOR'' = Some []
   \<and> get_env_var (base_env(''GITHUB_ACTOR'' \<mapsto> [])) ''GITHUB_ACTOR'' True =
       (SysExit 1, [Stderr (missing_diag ''GITHUB_ACTOR'')])
   \<and> main sample_rt (base_env(''PR_NUMBER'' \<mapsto> [])) =
       main sample_rt (base_env(''PR_NUMBER'' := None))
   \<and> classify (base_env(''PR_NUMBER'' \<mapsto> [])) = None"
proof -
  note t1 = empty_counts_as_absent [where env = "base_env(''GITHUB_ACTOR'' \<mapsto> [])"
      and name = "''GITHUB_ACTOR''"]
  note t2 = empty_counts_as_absent [where env = base_env and name = "''PR_NUMBER''"
      and rt = sample_rt]
  have u: "base_env(''PR_NUMBER'' := None) = base_env"
    by (rule ext) (simp add: base_env_def)
  from t1 have g: "get_env_var (base_env(''GITHUB_ACTOR'' \<mapsto> [])) ''GITHUB_ACTOR'' True =
       (SysExit 1, [Stderr (missing_diag ''GITHUB_ACTOR'')])"
    by simp
  from t2 have m: "main sample_rt (base_env(''PR_NUMBER'' \<mapsto> [])) =
       main sample_rt (base_env(''PR_NUMBER'' := None))"
    by blast
  from t2 have c: "classify (base_env(''PR_NUMBER'' \<mapsto> [])) = None"
    by (simp add: u base_env_facts(1))
  show ?thesis
    using g m c by simp
qed

subsection \<open>Shape mismatches that leave the push formatter\<close>

lemma format_push_non_object:
  assumes "d \<noteq> []" "json_loads rt d = Inr (JArr (c # cs))" "\<not> is_object c"
  shows "format_push_message rt repo actor branch (Some d) = Inl AttributeError"
proof -
  have "parse_commits rt repo d = Inl AttributeError"
    by (simp add: parse_commits_list [OF assms(2)] bind_exc_simps
        commit_line_non_object [OF assms(3)])
  with assms(1) show ?thesis
    by (simp add: format_push_unhandled push_handles_simps)
qed

lemma format_push_bad_author:
  assumes "d \<noteq> []" "json_loads rt d = Inr (JArr (JObj kv # cs))"
    and "opt_str (field kv ''id'')" "opt_str (field kv ''message'')"
      "field kv ''author'' = Some a" "\<not> is_object a"
  shows "format_push_message rt repo actor branch (Some d) = Inl AttributeError"
proof -
  have "parse_commits rt repo d = Inl AttributeError"
    by (simp add: parse_commits_list [OF assms(2)] bind_exc_simps
        commit_line_bad_author [OF assms(3-6)])
  with assms(1) show ?thesis
    by (simp add: format_push_unhandled push_handles_simps)
qed

lemma main_push_raises:
  assumes "\<not> missing_config env" "classify env = Some Push"
    and "format_push_message rt (env_value env ''GITHUB_REPOSITORY'')
           (env_value env ''GITHUB_ACTOR'') (env_value env ''PUSH_BRANCH'')
           (env ''PUSH_COMMITS'') = Inl e"
  shows "main rt env = (Raised e, [])"
  using assms(3) by (simp add: main_complete [OF assms(1,2)] lift_exc_def bind_simps)

text \<open>
  C4.  The formatter is not total: when the decoded list starts with an entry
  that is not a mapping, or with a mapping whose \<open>author\<close> is not a mapping, the
  call of \<open>get\<close> raises \<open>AttributeError\<close>, which the handler does not list; the
  exception leaves \<open>format_push_message\<close> and then \<open>main\<close>, so the process dies
  with status 1 before any line is printed or any request made.
\<close>

theorem push_attribute_error_escapes:
  "(d \<noteq> [] \<and> json_loads rt d = Inr (JArr (c # cs)) \<and> \<not> is_object c \<longrightarrow>
      format_push_message rt repo actor branch (Some d) = Inl AttributeError)
   \<and> (d \<noteq> [] \<and> json_loads rt d = Inr (JArr (JObj kv # cs)) \<and> opt_str (field kv ''id'')
        \<and> opt_str (field kv ''message'') \<and> field kv ''author'' = Some a \<and> \<not> is_object a \<longrightarrow>
      format_push_message rt repo actor branch (Some d) = Inl AttributeError)
   \<and> (\<not> missing_config env \<and> classify env = Some Push \<and> env ''PUSH_COMMITS'' = Some d
        \<and> d \<noteq> [] \<and> json_loads rt d = Inr (JArr (c # cs)) \<and> \<not> is_object c \<longrightarrow>
      main rt env = (Raised AttributeError, [])
      \<and> exit_code (fst (main rt env)) = 1)"
proof -
  have a: "d \<noteq> [] \<and> json_loads rt d = Inr (JArr (c # cs)) \<and> \<not> is_object c \<longrightarrow>
      format_push_message rt repo actor branch (Some d) = Inl AttributeError"
    using format_push_non_object by blast
  have b: "d \<noteq> [] \<and> json_loads rt d = Inr (JArr (JObj kv # cs)) \<and> opt_str (field kv ''id'')
        \<and> opt_str (field kv ''message'') \<and> field kv ''author'' = Some a \<and> \<not> is_object a \<longrightarrow>
      format_push_message rt repo actor branch (Some d) = Inl AttributeError"
    using format_push_bad_author by blast
  have c: "\<not> missing_config env \<and> classify env = Some Push \<and> env ''PUSH_COMMITS'' = Some d
        \<and> d \<noteq> [] \<and> json_loads rt d = Inr (JArr (c # cs)) \<and> \<not> is_object c \<longrightarrow>
      main rt env = (Raised AttributeError, [])
      \<and> exit_code (fst (main rt env)) = 1"
  proof (intro impI, elim conjE)
    assume h: "\<not> missing_config env" "classify env = Some Push"
      and p: "env ''PUSH_COMMITS'' = Some d" "d \<noteq> []"
        "json_loads rt d = Inr (JArr (c # cs))" "\<not> is_object c"
    have "format_push_message rt (env_value env ''GITHUB_REPOSITORY'')
           (env_value env ''GITHUB_ACTOR'') (env_value env ''PUSH_BRANCH'')
           (env ''PUSH_COMMITS'') = Inl AttributeError"
      unfolding p(1) using p(2-4) by (rule format_push_non_object)
    from main_push_raises [OF h this]
    show "main rt env = (Raised AttributeError, []) \<and> exit_code (fst (main rt env)) = 1"
      by simp
  qed
  show ?thesis
    by (intro conjI a b c)
qed

lemma push_env_facts:
  "classify push_env = Some Push" "list_all (present push_env) (required_vars Push)"
  "list_all (present push_env) common_vars" "push_env ''PUSH_COMMITS'' = Some (lit ''[1]'')"
  by (simp_all add: classify_def matches_def present_def push_env_def common_vars_def lit_eval)

lemma push_env_complete: "\<not> missing_config push_env"
  using push_env_facts(2,3)
  by (simp add: missing_config_def push_env_facts(1) list_ex_iff list_all_iff)

theorem push_attribute_error_escapes_witness:
  "lit ''[1]'' \<noteq> [] \<and> json_loads sample_rt (lit ''[1]'') = Inr (JArr [JInt 1])
   \<and> \<not> is_object (JInt 1)
   \<and> format_push_message sample_rt (lit ''o/r'') (lit ''bob'') (lit ''main'')
        (Some (lit ''[1]'')) = Inl AttributeError
   \<and> \<not> missing_config push_env \<and> classify push_env = Some Push
   \<and> push_env ''PUSH_COMMITS'' = Some (lit ''[1]'')
   \<and> main sample_rt push_env = (Raised AttributeError, [])
   \<and> exit_code (fst (main sample_rt push_env)) = 1"
proof -
  have l: "lit ''[1]'' \<noteq> []" "json_loads sample_rt (lit ''[1]'') = Inr (JArr [JInt 1])"
    "\<not> is_object (JInt 1)"
    by (simp_all add: sample_eval dq_def lit_eval)
  note t = push_attribute_error_escapes [where rt = sample_rt and d = "lit ''[1]''"
        and c = "JInt 1" and cs = "[]" and repo = "lit ''o/r''" and actor = "lit ''bob''"
        and branch = "lit ''main''" and env = push_env]
  from t l have f: "format_push_message sample_rt (lit ''o/r'') (lit ''bob'') (lit ''main'')
        (Some (lit ''[1]'')) = Inl AttributeError"
    by blast
  from t l push_env_complete push_env_facts(1,4)
  have m: "main sample_rt push_env = (Raised AttributeError, [])
      \<and> exit_code (fst (main sample_rt push_env)) = 1"
    by blast
  show ?thesis
    using l f push_env_complete push_env_facts(1,4) m by simp
qed

end
